theory Spec2Isabelle
  imports Complex_Main "HOL-Library.Word"
begin

section \<open>JavaScript numbers\<close>

text \<open>
  The constants at the head of \<^verbatim>\<open>AudioCaptureManagerPreload.ts\<close> are computed with
  JavaScript numbers, that is IEEE 754 binary64 values. A finite double is a rational, so
  a number is modelled as a rational or one of the three special values, and every
  arithmetic operation rounds the exact result to the nearest double, ties to even.
  Signed zeros are not distinguished.
\<close>

datatype js_number = Num rat | PInf | NInf | NaN

function bit_length :: "int \<Rightarrow> int" where
  "bit_length n = (if n \<le> 0 then 0 else 1 + bit_length (n div 2))"
  by pat_completeness auto
termination
  by (relation "measure nat") auto

declare bit_length.simps [simp del]

text \<open>\<open>ilog2 x\<close> is the binary exponent of a positive rational: \<open>2 powi ilog2 x \<le> x < 2 powi (ilog2 x + 1)\<close>.\<close>

definition ilog2 :: "rat \<Rightarrow> int" where
  "ilog2 x = (let (p, q) = quotient_of x;
                  d = bit_length p - bit_length q
              in if 2 powi d \<le> x then d else d - 1)"

definition round_half_even :: "rat \<Rightarrow> int" where
  "round_half_even q = (let f = \<lfloor>q\<rfloor>; d = q - of_int f
     in if d < 1 / 2 then f else if 1 / 2 < d then f + 1
        else if even f then f else f + 1)"

text \<open>
  Rounding to binary64: 53 significant bits, the exponent not below \<open>-1022\<close> (below it
  the spacing of the subnormal numbers stays \<open>2 powi (-1074)\<close>), infinity from
  \<open>2 powi 1024\<close> on.
\<close>

definition round_double :: "rat \<Rightarrow> js_number" where
  "round_double x = (if x = 0 then Num 0 else
     let a = \<bar>x\<bar>;
         e = max (ilog2 a) (- 1022);
         u = 2 powi (e - 52);
         r = of_int (round_half_even (a / u)) * u
     in if 2 powi 1024 \<le> r then (if x < 0 then NInf else PInf)
        else Num (if x < 0 then - r else r))"

fun is_negative :: "js_number \<Rightarrow> bool" where
  "is_negative (Num a) = (a < 0)"
| "is_negative NInf = True"
| "is_negative _ = False"

fun js_mul :: "js_number \<Rightarrow> js_number \<Rightarrow> js_number" where
  "js_mul NaN _ = NaN"
| "js_mul _ NaN = NaN"
| "js_mul (Num a) (Num b) = round_double (a * b)"
| "js_mul x y =
     (if x = Num 0 \<or> y = Num 0 then NaN
      else if is_negative x \<noteq> is_negative y then NInf else PInf)"

fun js_div :: "js_number \<Rightarrow> js_number \<Rightarrow> js_number" where
  "js_div NaN _ = NaN"
| "js_div _ NaN = NaN"
| "js_div (Num a) (Num b) =
     (if b = 0 then (if a = 0 then NaN else if a < 0 then NInf else PInf)
      else round_double (a / b))"
| "js_div (Num a) _ = Num 0"
| "js_div x (Num b) = (if is_negative x \<noteq> (b < 0) then NInf else PInf)"
| "js_div _ _ = NaN"

section \<open>The module constants\<close>

definition SAMPLE_RATE :: js_number where
  "SAMPLE_RATE = Num 48000"

definition NUM_CHANNELS :: js_number where
  "NUM_CHANNELS = Num 2"

definition BIT_DEPTH :: js_number where
  "BIT_DEPTH = Num 16"

definition BYTES_PER_SAMPLE :: js_number where
  "BYTES_PER_SAMPLE = js_div BIT_DEPTH (Num 8)"

definition FRAME_DURATION :: js_number where
  "FRAME_DURATION = Num 20"

definition FRAME_DURATION_SECONDS :: js_number where
  "FRAME_DURATION_SECONDS = js_div FRAME_DURATION (Num 1000)"

definition FRAME_SIZE :: js_number where
  "FRAME_SIZE =
     js_div (js_mul (js_mul SAMPLE_RATE FRAME_DURATION_SECONDS) NUM_CHANNELS) BYTES_PER_SAMPLE"

section \<open>The objects of the web platform\<close>

text \<open>
  The manager holds references to objects of the browser: media streams and their tracks,
  the nodes of the audio graph, a websocket, an audio element. Nodes and tracks are kept
  in explicit stores and named by identifiers, since the registry and the graph refer to
  the same gain node and a claim may depend on which node a record points to.
\<close>

type_synonym track_id = nat
type_synonym node_id = nat
type_synonym js_error = string
type_synonym pcm_frame = "8 word list"

datatype track_ready_state = live | ended

datatype media_stream = MediaStream (getTracks: "track_id list")

datatype audio_node =
    GainNode (gain_value: rat)
  | MediaStreamAudioSourceNode media_stream
  | MediaStreamAudioDestinationNode
  | AudioWorkletNode string nat

text \<open>An awaited promise either fulfils with a value or rejects with an error.\<close>

datatype 'a promise_outcome = Fulfilled 'a | Rejected js_error

text \<open>
  A method either returns, or throws (an \<^verbatim>\<open>async\<close> method: rejects) with the state as
  it is at that moment.
\<close>

datatype 'st completion = Normal 'st | Throw js_error 'st

text \<open>
  The two constraint objects the manager passes to \<^verbatim>\<open>getUserMedia\<close>: the audio of a tab,
  by its media source id, or the audio of a device, by its device id, with the values of
  \<^verbatim>\<open>noiseSuppression\<close>, \<^verbatim>\<open>autoGainControl\<close> and \<^verbatim>\<open>echoCancellation\<close>.
\<close>

datatype media_constraints =
    TabAudio string
  | DeviceAudio string bool bool bool

datatype streaming_mode = lowLatency | performance

datatype ws_ready_state = CONNECTING | OPEN | CLOSING | CLOSED

datatype ipc_message =
    AUDIO_CAPTURE_STREAM_START js_number js_number js_number
  | ERROR_WebSocket_closed nat

datatype console_entry =
    Unable_to_start_stream_for_web_view int
  | Unable_to_start_stream_for_external_audio_device string
  | Error_object js_error

record audio_context =
  latencyHint :: string
  sampleRate :: js_number
  nodes :: "node_id \<rightharpoonup> audio_node"
  next_node :: node_id
  connections :: "(node_id \<times> node_id) list"

record audio_element =
  srcObject :: node_id
  muted :: bool
  playing :: bool

record websocket =
  port :: nat
  readyState :: ws_ready_state
  sent :: "pcm_frame list"

section \<open>Plain objects used as records\<close>

text \<open>
  The two records keyed by device id are plain objects (\<^verbatim>\<open>{}\<close> in the constructor), not
  maps: a read of a key without an own entry goes on to the prototype of the object. At
  first this is \<^verbatim>\<open>Object.prototype\<close>, with the methods listed below and the accessor
  \<^verbatim>\<open>__proto__\<close>, whose getter gives the prototype of the object and whose setter replaces
  it by the object assigned. Once a stream or a gain node has been assigned through
  \<^verbatim>\<open>__proto__\<close>, it is the prototype, and reads and writes find what it inherits from
  the prototype objects of its interface before they reach \<^verbatim>\<open>Object.prototype\<close>. Such a
  member is either a method, a writable data property whose value is a function, or an
  attribute, an accessor that throws a \<^verbatim>\<open>TypeError\<close> unless it is called on an object of
  the interface (a record is not one; the module is in strict mode, so the assignment to
  an attribute without a setter throws as well).
\<close>

datatype member = Method | Attribute

definition Object_prototype_methods :: "string list" where
  "Object_prototype_methods =
     [''constructor'', ''hasOwnProperty'', ''isPrototypeOf'', ''propertyIsEnumerable'',
      ''toLocaleString'', ''toString'', ''valueOf'', ''__defineGetter__'', ''__defineSetter__'',
      ''__lookupGetter__'', ''__lookupSetter__'']"

text \<open>
  An object has its own entries and a prototype: \<open>None\<close> for \<^verbatim>\<open>Object.prototype\<close>, or the
  object that has been assigned through \<^verbatim>\<open>__proto__\<close>.
\<close>

record 'v js_object =
  own :: "string \<rightharpoonup> 'v"
  prototype :: "'v option"

text \<open>
  What a read gives: \<^verbatim>\<open>undefined\<close>, an object of the kind that the record is meant to hold,
  or some other function or object (which is truthy).
\<close>

datatype 'v js_value = Undefined | Value 'v | Other

definition empty_object :: "'v js_object" where
  "empty_object = \<lparr>own = Map.empty, prototype = None\<rparr>"

text \<open>
  The member that the key names on the interface of the prototype, if the prototype has
  been replaced; \<open>members\<close> are the members of that interface.
\<close>

definition interface_member ::
  "(string \<Rightarrow> member option) \<Rightarrow> 'v js_object \<Rightarrow> string \<Rightarrow> member option" where
  "interface_member members obj k = (case prototype obj of None \<Rightarrow> None | Some _ \<Rightarrow> members k)"

definition js_get ::
  "(string \<Rightarrow> member option) \<Rightarrow> 'v js_object \<Rightarrow> string \<Rightarrow> js_error + 'v js_value" where
  "js_get members obj k =
     (case own obj k of
        Some v \<Rightarrow> Inr (Value v)
      | None \<Rightarrow>
          (case interface_member members obj k of
             Some Method \<Rightarrow> Inr Other
           | Some Attribute \<Rightarrow> Inl ''TypeError''
           | None \<Rightarrow>
               if k = ''__proto__''
               then Inr (case prototype obj of None \<Rightarrow> Other | Some v \<Rightarrow> Value v)
               else if k \<in> set Object_prototype_methods then Inr Other
               else Inr Undefined))"

definition js_set ::
  "(string \<Rightarrow> member option) \<Rightarrow> 'v js_object \<Rightarrow> string \<Rightarrow> 'v \<Rightarrow> js_error + 'v js_object" where
  "js_set members obj k v =
     (case own obj k of
        Some _ \<Rightarrow> Inr (obj\<lparr>own := (own obj)(k \<mapsto> v)\<rparr>)
      | None \<Rightarrow>
          (case interface_member members obj k of
             Some Method \<Rightarrow> Inr (obj\<lparr>own := (own obj)(k \<mapsto> v)\<rparr>)
           | Some Attribute \<Rightarrow> Inl ''TypeError''
           | None \<Rightarrow>
               if k = ''__proto__'' then Inr (obj\<lparr>prototype := Some v\<rparr>)
               else Inr (obj\<lparr>own := (own obj)(k \<mapsto> v)\<rparr>)))"

text \<open>\<^verbatim>\<open>delete\<close> removes an own entry and does nothing to what is inherited.\<close>

definition js_delete :: "'v js_object \<Rightarrow> string \<Rightarrow> 'v js_object" where
  "js_delete obj k = obj\<lparr>own := (own obj)(k := None)\<rparr>"

text \<open>The keys under which a record without an own entry does not read as \<^verbatim>\<open>undefined\<close>.\<close>

definition inherits :: "(string \<Rightarrow> member option) \<Rightarrow> 'v js_object \<Rightarrow> string \<Rightarrow> bool" where
  "inherits members obj k \<longleftrightarrow>
     interface_member members obj k \<noteq> None \<or> k = ''__proto__'' \<or> k \<in> set Object_prototype_methods"

text \<open>
  The members of the interfaces of a media stream and of a gain node (with those of the
  interfaces they extend) depend on the browser; the manager is modelled for any.
\<close>

record platform =
  MediaStream_members :: "string \<Rightarrow> member option"
  GainNode_members :: "string \<Rightarrow> member option"

section \<open>The state of the manager\<close>

text \<open>
  The fields of the class, without the leading underscore of the source (an Isabelle
  name cannot start with one), followed by what the environment observes of the manager:
  the state of every track, the console and the messages given to \<^verbatim>\<open>ipcRenderer\<close>.
  View ids are the integer ids of Electron's web contents; the keys of the two records of
  the views are their decimal numerals, which name nothing that an object inherits, so
  these two records are maps.
\<close>

record manager =
  audioContext :: audio_context
  audioOutputNode :: node_id
  audioOutputElement :: "audio_element option"
  mediaStreams :: "int \<rightharpoonup> media_stream"
  mediaStreamOutputs :: "int \<rightharpoonup> node_id"
  externalAudioStreams :: "media_stream js_object"
  externalAudioStreamOutputs :: "node_id js_object"
  ws :: "websocket option"
  trackState :: "track_id \<Rightarrow> track_ready_state"
  console :: "console_entry list"
  ipc :: "ipc_message list"

section \<open>The audio graph\<close>

definition new_node :: "audio_node \<Rightarrow> audio_context \<Rightarrow> node_id \<times> audio_context" where
  "new_node n ctx =
     (next_node ctx, ctx\<lparr>nodes := (nodes ctx)(next_node ctx \<mapsto> n), next_node := next_node ctx + 1\<rparr>)"

text \<open>A new gain node has the gain 1.\<close>

definition createGain :: "audio_context \<Rightarrow> node_id \<times> audio_context" where
  "createGain ctx = new_node (GainNode 1) ctx"

definition createMediaStreamSource :: "media_stream \<Rightarrow> audio_context \<Rightarrow> node_id \<times> audio_context" where
  "createMediaStreamSource stream ctx = new_node (MediaStreamAudioSourceNode stream) ctx"

definition createMediaStreamDestination :: "audio_context \<Rightarrow> node_id \<times> audio_context" where
  "createMediaStreamDestination ctx = new_node MediaStreamAudioDestinationNode ctx"

definition newAudioWorkletNode :: "string \<Rightarrow> nat \<Rightarrow> audio_context \<Rightarrow> node_id \<times> audio_context" where
  "newAudioWorkletNode name bufferSize ctx = new_node (AudioWorkletNode name bufferSize) ctx"

text \<open>Connecting two nodes that are connected already changes nothing.\<close>

definition connect :: "node_id \<Rightarrow> node_id \<Rightarrow> audio_context \<Rightarrow> audio_context" where
  "connect a b ctx = ctx\<lparr>connections := List.insert (a, b) (connections ctx)\<rparr>"

definition set_gain :: "node_id \<Rightarrow> rat \<Rightarrow> audio_context \<Rightarrow> audio_context" where
  "set_gain g v ctx = ctx\<lparr>nodes := (nodes ctx)(g \<mapsto> GainNode v)\<rparr>"

definition track_stop :: "track_id \<Rightarrow> manager \<Rightarrow> manager" where
  "track_stop t s = s\<lparr>trackState := (trackState s)(t := ended)\<rparr>"

text \<open>The nodes that feed a node, for instance the gain stages wired into the mix bus.\<close>

definition inputs_of :: "node_id \<Rightarrow> audio_context \<Rightarrow> node_id list" where
  "inputs_of n ctx = map fst (filter (\<lambda>c. snd c = n) (connections ctx))"

section \<open>The manager\<close>

definition constructor :: manager where
  "constructor =
     (let ctx = \<lparr>latencyHint = ''playback'', sampleRate = SAMPLE_RATE, nodes = Map.empty,
                 next_node = 0, connections = []\<rparr>;
          (out, ctx1) = createGain ctx
      in \<lparr>audioContext = ctx1, audioOutputNode = out, audioOutputElement = None,
          mediaStreams = Map.empty, mediaStreamOutputs = Map.empty,
          externalAudioStreams = empty_object, externalAudioStreamOutputs = empty_object,
          ws = None, trackState = (\<lambda>_. live), console = [], ipc = []\<rparr>)"

definition setMuted :: "int \<Rightarrow> bool \<Rightarrow> manager \<Rightarrow> manager" where
  "setMuted id' muted' s =
     (case mediaStreamOutputs s id' of
        None \<Rightarrow> s
      | Some g \<Rightarrow> s\<lparr>audioContext := set_gain g (if muted' then 0 else 1) (audioContext s)\<rparr>)"

text \<open>
  Before \<^verbatim>\<open>setup\<close> has run the audio element is undefined, and the assignment to a
  property of it throws.
\<close>

definition setLoopback :: "bool \<Rightarrow> manager \<Rightarrow> manager completion" where
  "setLoopback loopback s =
     (case audioOutputElement s of
        None \<Rightarrow> Throw ''TypeError'' s
      | Some el \<Rightarrow> Normal (s\<lparr>audioOutputElement := Some (el\<lparr>muted := \<not> loopback\<rparr>)\<rparr>))"

text \<open>
  The two \<^verbatim>\<open>start...\<close> methods change nothing before they await \<^verbatim>\<open>getUserMedia\<close>, so
  each is one step taken when the promise settles; \<open>getUserMedia\<close> is the answer of the
  environment. Everything after the \<^verbatim>\<open>await\<close> is inside the \<^verbatim>\<open>try\<close> block.
\<close>

definition startExternalAudioCapture ::
  "platform \<Rightarrow> (media_constraints \<Rightarrow> media_stream promise_outcome) \<Rightarrow> string \<Rightarrow> manager \<Rightarrow> manager" where
  "startExternalAudioCapture P getUserMedia deviceId s =
     (case getUserMedia (DeviceAudio deviceId False False False) of
        Rejected error \<Rightarrow>
          s\<lparr>console := console s @
              [Unable_to_start_stream_for_external_audio_device deviceId, Error_object error]\<rparr>
      | Fulfilled stream \<Rightarrow>
          (case js_set (MediaStream_members P) (externalAudioStreams s) deviceId stream of
             Inl error \<Rightarrow>
               s\<lparr>console := console s @
                   [Unable_to_start_stream_for_external_audio_device deviceId, Error_object error]\<rparr>
           | Inr streams \<Rightarrow>
               (let s1 = s\<lparr>externalAudioStreams := streams\<rparr>;
                    (output, ctx1) = createGain (audioContext s1);
                    s2 = s1\<lparr>audioContext := ctx1\<rparr>
                in case js_set (GainNode_members P) (externalAudioStreamOutputs s2) deviceId output of
                     Inl error \<Rightarrow>
                       s2\<lparr>console := console s2 @
                           [Unable_to_start_stream_for_external_audio_device deviceId,
                            Error_object error]\<rparr>
                   | Inr outputs \<Rightarrow>
                       (let s3 = s2\<lparr>externalAudioStreamOutputs := outputs\<rparr>;
                            (audioSource, ctx2) = createMediaStreamSource stream (audioContext s3);
                            ctx3 = connect audioSource output ctx2;
                            ctx4 = connect output (audioOutputNode s3) ctx3
                        in s3\<lparr>audioContext := ctx4\<rparr>))))"

text \<open>
  The read of the record can throw; when it gives something truthy that is not a stream,
  the call of its \<^verbatim>\<open>getTracks\<close>, which is undefined, throws.
\<close>

definition stopExternalAudioCapture :: "platform \<Rightarrow> string \<Rightarrow> manager \<Rightarrow> manager completion" where
  "stopExternalAudioCapture P deviceId s =
     (case js_get (MediaStream_members P) (externalAudioStreams s) deviceId of
        Inl error \<Rightarrow> Throw error s
      | Inr Undefined \<Rightarrow> Normal s
      | Inr Other \<Rightarrow> Throw ''TypeError'' s
      | Inr (Value stream) \<Rightarrow>
          (let s1 = fold track_stop (getTracks stream) s;
               s2 = s1\<lparr>externalAudioStreams := js_delete (externalAudioStreams s1) deviceId\<rparr>
           in Normal (s2\<lparr>externalAudioStreamOutputs :=
                           js_delete (externalAudioStreamOutputs s2) deviceId\<rparr>)))"

definition setupWebsocket :: "nat promise_outcome \<Rightarrow> manager \<Rightarrow> manager completion" where
  "setupWebsocket websocketAddress s =
     (case websocketAddress of
        Rejected error \<Rightarrow> Throw error s
      | Fulfilled p \<Rightarrow> Normal (s\<lparr>ws := Some \<lparr>port = p, readyState = CONNECTING, sent = []\<rparr>\<rparr>))"

text \<open>The listener that \<^verbatim>\<open>_setupWebsocket\<close> adds for the close event of the socket.\<close>

definition ws_onclose :: "nat \<Rightarrow> manager \<Rightarrow> manager" where
  "ws_onclose code s = s\<lparr>ipc := ipc s @ [ERROR_WebSocket_closed code]\<rparr>"

definition setupLoopback :: "manager \<Rightarrow> manager" where
  "setupLoopback s =
     (let (mediaDestination, ctx1) = createMediaStreamDestination (audioContext s);
          ctx2 = connect (audioOutputNode s) mediaDestination ctx1
      in s\<lparr>audioContext := ctx2,
           audioOutputElement := Some \<lparr>srcObject = mediaDestination, muted = False, playing = False\<rparr>\<rparr>)"

definition audio_onloadedmetadata :: "manager \<Rightarrow> manager" where
  "audio_onloadedmetadata s =
     (case audioOutputElement s of
        None \<Rightarrow> s
      | Some el \<Rightarrow> s\<lparr>audioOutputElement := Some (el\<lparr>playing := True\<rparr>)\<rparr>)"

definition setup_manager :: "nat promise_outcome \<Rightarrow> manager \<Rightarrow> manager completion" where
  "setup_manager websocketAddress s =
     (case setupWebsocket websocketAddress s of
        Throw error s1 \<Rightarrow> Throw error s1
      | Normal s1 \<Rightarrow> Normal (setupLoopback s1))"

text \<open>The handler that \<^verbatim>\<open>_startBrowserStream\<close> installs on the port of the worklet node.\<close>

definition pcm_onmessage :: "pcm_frame \<Rightarrow> manager \<Rightarrow> manager" where
  "pcm_onmessage data s =
     (case ws s of
        None \<Rightarrow> s
      | Some w \<Rightarrow>
          if readyState w = OPEN then s\<lparr>ws := Some (w\<lparr>sent := sent w @ [data]\<rparr>)\<rparr> else s)"

definition bufferSize :: "streaming_mode \<Rightarrow> nat" where
  "bufferSize streamingMode = (if streamingMode = lowLatency then 256 else 64000)"

text \<open>
  \<open>addModule\<close> is the outcome of loading the worklet module; the message to the main
  process has been sent before it is awaited.
\<close>

definition startBrowserStream ::
  "unit promise_outcome \<Rightarrow> streaming_mode \<Rightarrow> manager \<Rightarrow> manager completion" where
  "startBrowserStream addModule streamingMode s =
     (let s1 = s\<lparr>ipc := ipc s @ [AUDIO_CAPTURE_STREAM_START NUM_CHANNELS FRAME_SIZE SAMPLE_RATE]\<rparr>
      in case addModule of
           Rejected error \<Rightarrow> Throw error s1
         | Fulfilled _ \<Rightarrow>
             (let (pcmStreamNode, ctx1) =
                    newAudioWorkletNode ''pcm-stream'' (bufferSize streamingMode) (audioContext s1);
                  ctx2 = connect (audioOutputNode s1) pcmStreamNode ctx1
              in Normal (s1\<lparr>audioContext := ctx2\<rparr>)))"

definition start :: "unit promise_outcome \<Rightarrow> streaming_mode \<Rightarrow> manager \<Rightarrow> manager completion" where
  "start addModule streamingMode s = startBrowserStream addModule streamingMode s"

definition startBrowserViewStream ::
  "(media_constraints \<Rightarrow> media_stream promise_outcome) \<Rightarrow> int \<Rightarrow> string \<Rightarrow> manager \<Rightarrow> manager" where
  "startBrowserViewStream getUserMedia viewId mediaSourceId s =
     (case getUserMedia (TabAudio mediaSourceId) of
        Rejected error \<Rightarrow>
          s\<lparr>console := console s @
              [Unable_to_start_stream_for_web_view viewId, Error_object error]\<rparr>
      | Fulfilled stream \<Rightarrow>
          (let s1 = s\<lparr>mediaStreams := (mediaStreams s)(viewId \<mapsto> stream)\<rparr>;
               (output, ctx1) = createGain (audioContext s1);
               s2 = s1\<lparr>audioContext := ctx1,
                      mediaStreamOutputs := (mediaStreamOutputs s1)(viewId \<mapsto> output)\<rparr>;
               (audioSource, ctx2) = createMediaStreamSource stream (audioContext s2);
               ctx3 = connect audioSource output ctx2;
               ctx4 = connect output (audioOutputNode s2) ctx3
           in s2\<lparr>audioContext := ctx4\<rparr>))"

definition stopBrowserViewStream :: "int \<Rightarrow> manager \<Rightarrow> manager" where
  "stopBrowserViewStream viewId s =
     (case mediaStreams s viewId of
        None \<Rightarrow> s
      | Some stream \<Rightarrow>
          (let s1 = fold track_stop (getTracks stream) s
           in s1\<lparr>mediaStreams := (mediaStreams s1)(viewId := None)\<rparr>))"

section \<open>Observations and the invariant of the registry\<close>

text \<open>Whether the handler of the worklet port finds an open socket, and what the socket has sent.\<close>

definition ws_is_open :: "manager \<Rightarrow> bool" where
  "ws_is_open s = (case ws s of None \<Rightarrow> False | Some w \<Rightarrow> readyState w = OPEN)"

definition transmitted :: "manager \<Rightarrow> pcm_frame list" where
  "transmitted s = (case ws s of None \<Rightarrow> [] | Some w \<Rightarrow> sent w)"

text \<open>The gain nodes that the records of the devices hold or have as their prototype.\<close>

definition device_gain :: "manager \<Rightarrow> node_id \<Rightarrow> bool" where
  "device_gain s g \<longleftrightarrow>
     (\<exists>d. own (externalAudioStreamOutputs s) d = Some g) \<or>
     prototype (externalAudioStreamOutputs s) = Some g"

text \<open>
  The invariant: the identifier of the next node is above the mix bus, every node of the
  graph, both ends of every connection and every recorded gain node; a recorded gain
  node is not the mix bus, and no gain node is recorded for both a view and a device.
\<close>

definition registry_ok :: "manager \<Rightarrow> bool" where
  "registry_ok s \<longleftrightarrow>
     audioOutputNode s < next_node (audioContext s) \<and>
     (\<forall>n. nodes (audioContext s) n \<noteq> None \<longrightarrow> n < next_node (audioContext s)) \<and>
     (\<forall>c \<in> set (connections (audioContext s)).
        fst c < next_node (audioContext s) \<and> snd c < next_node (audioContext s)) \<and>
     (\<forall>v g. mediaStreamOutputs s v = Some g \<longrightarrow>
        g < next_node (audioContext s) \<and> g \<noteq> audioOutputNode s \<and> \<not> device_gain s g) \<and>
     (\<forall>g. device_gain s g \<longrightarrow> g < next_node (audioContext s) \<and> g \<noteq> audioOutputNode s)"

fun state_of :: "'st completion \<Rightarrow> 'st" where
  "state_of (Normal s) = s"
| "state_of (Throw e s) = s"

text \<open>
  The states of a manager: the new one, and those that a call of a method or of one of
  the listeners leads to, whatever the environment answers.
\<close>

inductive reachable :: "platform \<Rightarrow> manager \<Rightarrow> bool" for P :: platform where
  reachable_constructor: "reachable P constructor"
| reachable_setup: "reachable P s \<Longrightarrow> reachable P (state_of (setup_manager websocketAddress s))"
| reachable_start: "reachable P s \<Longrightarrow> reachable P (state_of (start addModule streamingMode s))"
| reachable_setMuted: "reachable P s \<Longrightarrow> reachable P (setMuted id' muted' s)"
| reachable_setLoopback: "reachable P s \<Longrightarrow> reachable P (state_of (setLoopback loopback s))"
| reachable_startExternalAudioCapture:
    "reachable P s \<Longrightarrow> reachable P (startExternalAudioCapture P getUserMedia d s)"
| reachable_stopExternalAudioCapture:
    "reachable P s \<Longrightarrow> reachable P (state_of (stopExternalAudioCapture P d s))"
| reachable_startBrowserViewStream:
    "reachable P s \<Longrightarrow> reachable P (startBrowserViewStream getUserMedia viewId mediaSourceId s)"
| reachable_stopBrowserViewStream: "reachable P s \<Longrightarrow> reachable P (stopBrowserViewStream viewId s)"
| reachable_pcm_onmessage: "reachable P s \<Longrightarrow> reachable P (pcm_onmessage data s)"
| reachable_ws_onclose: "reachable P s \<Longrightarrow> reachable P (ws_onclose code s)"
| reachable_audio_onloadedmetadata: "reachable P s \<Longrightarrow> reachable P (audio_onloadedmetadata s)"

section \<open>Environments and states used in the examples\<close>

text \<open>
  A platform with the members that the standards give to a media stream and to a gain
  node, an environment that grants every request with a stream of the given tracks, one
  that rejects every request, and the states a few calls lead to from a new manager.
\<close>

definition browser :: platform where
  "browser =
     \<lparr>MediaStream_members = (\<lambda>k.
          if k \<in> set [''id'', ''active'', ''onaddtrack'', ''onremovetrack''] then Some Attribute
          else if k \<in> set [''getAudioTracks'', ''getVideoTracks'', ''getTracks'', ''getTrackById'',
                  ''addTrack'', ''removeTrack'', ''clone'', ''constructor'', ''addEventListener'',
                  ''removeEventListener'', ''dispatchEvent''] then Some Method
          else None),
      GainNode_members = (\<lambda>k.
          if k \<in> set [''gain'', ''context'', ''numberOfInputs'', ''numberOfOutputs'',
                  ''channelCount'', ''channelCountMode'', ''channelInterpretation''] then Some Attribute
          else if k \<in> set [''connect'', ''disconnect'', ''constructor'', ''addEventListener'',
                  ''removeEventListener'', ''dispatchEvent''] then Some Method
          else None)\<rparr>"

definition granting :: "track_id list \<Rightarrow> media_constraints \<Rightarrow> media_stream promise_outcome" where
  "granting ts c = Fulfilled (MediaStream ts)"

definition rejecting :: "js_error \<Rightarrow> media_constraints \<Rightarrow> media_stream promise_outcome" where
  "rejecting e c = Rejected e"

definition view5 :: manager where
  "view5 = startBrowserViewStream (granting [0]) 5 ''h1'' constructor"

definition view5_twice :: manager where
  "view5_twice = startBrowserViewStream (granting [1]) 5 ''h2'' view5"

definition view5_mic1 :: manager where
  "view5_mic1 = startExternalAudioCapture browser (granting [1]) ''mic-1'' view5"

definition mic1 :: manager where
  "mic1 = startExternalAudioCapture browser (granting [0]) ''mic-1'' constructor"

definition toString_started :: manager where
  "toString_started = startExternalAudioCapture browser (granting [0]) ''toString'' constructor"

definition proto_started :: manager where
  "proto_started = startExternalAudioCapture browser (granting [0]) ''__proto__'' constructor"

definition closed_socket :: manager where
  "closed_socket = constructor\<lparr>ws := Some \<lparr>port = 8080, readyState = CLOSED, sent = []\<rparr>\<rparr>"

definition open_socket :: manager where
  "open_socket = constructor\<lparr>ws := Some \<lparr>port = 8080, readyState = OPEN, sent = []\<rparr>\<rparr>"

section \<open>Rounding gives a nearest double\<close>

text \<open>
  The exponent that \<open>ilog2\<close> computes is the binary exponent, and the result of
  \<open>round_double\<close> is a multiple of the spacing at that exponent, at most half a spacing
  from the exact value.
\<close>

lemma bit_length_nonneg: "0 \<le> bit_length n"
proof (induction n rule: bit_length.induct)
  case (1 n)
  then show ?case by (subst bit_length.simps) simp
qed

lemma bit_length_pos: "0 < n \<Longrightarrow> 0 < bit_length n"
  using bit_length_nonneg [of "n div 2"] by (subst bit_length.simps) simp

lemma bit_length_bounds:
  "0 < n \<Longrightarrow> 2 ^ nat (bit_length n - 1) \<le> n \<and> n < 2 ^ nat (bit_length n)"
proof (induction n rule: bit_length.induct)
  case (1 n)
  show ?case
  proof (cases "n = 1")
    case True
    then show ?thesis by (simp add: bit_length.simps [of 1] bit_length.simps [of 0])
  next
    case False
    with "1.prems" have h: "0 < n div 2" by simp
    from "1.prems" have nn: "\<not> n \<le> 0" by simp
    from "1.IH" [OF nn h]
    have ih: "2 ^ nat (bit_length (n div 2) - 1) \<le> n div 2" "n div 2 < 2 ^ nat (bit_length (n div 2))"
      by simp_all
    have bl: "bit_length n = 1 + bit_length (n div 2)"
      using nn by (subst bit_length.simps) simp
    have p: "0 < bit_length (n div 2)" using h by (rule bit_length_pos)
    have e1: "nat (bit_length n - 1) = Suc (nat (bit_length (n div 2) - 1))"
      using p bl by simp
    have e2: "nat (bit_length n) = Suc (nat (bit_length (n div 2)))"
      using p bl by simp
    have "2 * 2 ^ nat (bit_length (n div 2) - 1) \<le> 2 * (n div 2)" using ih(1) by simp
    also have "\<dots> \<le> n" by simp
    finally have lo: "2 ^ nat (bit_length n - 1) \<le> n" unfolding e1 by simp
    have "n div 2 + 1 \<le> 2 ^ nat (bit_length (n div 2))" using ih(2) by simp
    then have "2 * (n div 2) + 2 \<le> 2 * 2 ^ nat (bit_length (n div 2))" by simp
    moreover have "n < 2 * (n div 2) + 2" by presburger
    ultimately have hi: "n < 2 ^ nat (bit_length n)" unfolding e2 by simp
    from lo hi show ?thesis by simp
  qed
qed

lemma ilog2_bounds:
  assumes "0 < x"
  shows "2 powi ilog2 x \<le> x \<and> x < 2 powi (ilog2 x + 1)"
proof -
  obtain p q where pq: "quotient_of x = (p, q)" by (cases "quotient_of x")
  have q: "0 < q" using pq by (rule quotient_of_denom_pos)
  have x: "x = of_int p / of_int q" using pq by (rule quotient_of_div)
  have p: "0 < p" using assms q x by (simp add: zero_less_divide_iff)
  define bp where "bp = bit_length p"
  define bq where "bq = bit_length q"
  have bpp: "0 < bp" "0 < bq" using p q by (simp_all add: bp_def bq_def bit_length_pos)
  from bit_length_bounds [OF p] have P: "2 ^ nat (bp - 1) \<le> p" "p < 2 ^ nat bp"
    by (simp_all add: bp_def)
  from bit_length_bounds [OF q] have Q: "2 ^ nat (bq - 1) \<le> q" "q < 2 ^ nat bq"
    by (simp_all add: bq_def)
  have Pr: "(2::rat) powi (bp - 1) \<le> of_int p" "(of_int p :: rat) < 2 powi bp"
  proof -
    have "(of_int (2 ^ nat (bp - 1)) :: rat) \<le> of_int p" using P(1) by (simp only: of_int_le_iff)
    then show "(2::rat) powi (bp - 1) \<le> of_int p" using bpp by (simp add: power_int_def)
    have "(of_int p :: rat) < of_int (2 ^ nat bp)" using P(2) by (simp only: of_int_less_iff)
    then show "(of_int p :: rat) < 2 powi bp" using bpp by (simp add: power_int_def)
  qed
  have Qr: "(2::rat) powi (bq - 1) \<le> of_int q" "(of_int q :: rat) < 2 powi bq"
  proof -
    have "(of_int (2 ^ nat (bq - 1)) :: rat) \<le> of_int q" using Q(1) by (simp only: of_int_le_iff)
    then show "(2::rat) powi (bq - 1) \<le> of_int q" using bpp by (simp add: power_int_def)
    have "(of_int q :: rat) < of_int (2 ^ nat bq)" using Q(2) by (simp only: of_int_less_iff)
    then show "(of_int q :: rat) < 2 powi bq" using bpp by (simp add: power_int_def)
  qed
  have qr: "(0::rat) < of_int q" using q by simp
  have upper: "x < 2 powi (bp - bq + 1)"
  proof -
    have "of_int p < (2::rat) powi bp" by (rule Pr(2))
    also have "\<dots> = 2 powi (bp - bq + 1) * 2 powi (bq - 1)"
      by (simp add: power_int_add [symmetric])
    also have "\<dots> \<le> 2 powi (bp - bq + 1) * of_int q"
      using Qr(1) by (intro mult_left_mono) simp_all
    finally show ?thesis using qr by (simp add: x pos_divide_less_eq)
  qed
  have lower: "2 powi (bp - bq - 1) \<le> x"
  proof -
    have "(2::rat) powi (bp - bq - 1) * of_int q \<le> 2 powi (bp - bq - 1) * 2 powi bq"
      using Qr(2) by (intro mult_left_mono) simp_all
    also have "\<dots> = 2 powi (bp - 1)"
      by (simp add: power_int_add [symmetric])
    also have "\<dots> \<le> of_int p" by (rule Pr(1))
    finally show ?thesis using qr by (simp add: x pos_le_divide_eq)
  qed
  have step: "(2::rat) powi (bp - bq) = 2 powi (bp - bq - 1 + 1)" by simp
  show ?thesis
    using upper lower step
    by (auto simp: ilog2_def pq bp_def [symmetric] bq_def [symmetric] Let_def not_le)
qed


lemma round_half_even_nearest: "\<bar>of_int (round_half_even q) - q\<bar> \<le> 1 / 2"
proof -
  have "of_int \<lfloor>q\<rfloor> \<le> q" "q < of_int \<lfloor>q\<rfloor> + 1" by linarith+
  then show ?thesis
    by (auto simp: round_half_even_def Let_def abs_le_iff)
qed

lemma round_half_even_tie:
  "q - of_int \<lfloor>q\<rfloor> = 1 / 2 \<Longrightarrow> even (round_half_even q)"
  by (simp add: round_half_even_def Let_def)

lemma round_double_nearest:
  assumes "x \<noteq> 0" and "round_double x = Num r"
  defines "u \<equiv> 2 powi (max (ilog2 \<bar>x\<bar>) (- 1022) - 52)"
  shows "\<bar>r - x\<bar> \<le> u / 2 \<and> (\<exists>n::int. r = of_int n * u)"
proof -
  have u: "0 < u" by (simp add: u_def)
  define n where "n = round_half_even (\<bar>x\<bar> / u)"
  have "\<bar>of_int n - \<bar>x\<bar> / u\<bar> \<le> 1 / 2" unfolding n_def by (rule round_half_even_nearest)
  then have "\<bar>of_int n - \<bar>x\<bar> / u\<bar> * u \<le> 1 / 2 * u" using u by (intro mult_right_mono) simp_all
  moreover have "\<bar>of_int n - \<bar>x\<bar> / u\<bar> * u = \<bar>(of_int n - \<bar>x\<bar> / u) * u\<bar>"
    using u by (simp add: abs_mult)
  moreover have "(of_int n - \<bar>x\<bar> / u) * u = of_int n * u - \<bar>x\<bar>"
    using u by (simp add: field_simps)
  ultimately have e: "\<bar>of_int n * u - \<bar>x\<bar>\<bar> \<le> u / 2" by simp
  have r: "r = (if x < 0 then - (of_int n * u) else of_int n * u)"
    using assms(1,2) by (simp add: round_double_def Let_def u_def n_def split: if_splits)
  have m: "r = of_int (if x < 0 then - n else n) * u" using r by simp
  have "\<bar>r - x\<bar> \<le> u / 2"
  proof (cases "x < 0")
    case True
    then have "r - x = - (of_int n * u - \<bar>x\<bar>)" using r by simp
    then have "\<bar>r - x\<bar> = \<bar>of_int n * u - \<bar>x\<bar>\<bar>" by (simp only: abs_minus_cancel)
    with e show ?thesis by simp
  next
    case False
    then have "r - x = of_int n * u - \<bar>x\<bar>" using r by simp
    with e show ?thesis by simp
  qed
  with m show ?thesis by blast
qed

section \<open>The framing constant\<close>

lemma FRAME_DURATION_SECONDS_value:
  "FRAME_DURATION_SECONDS = Num (5764607523034235 / 288230376151711744)"
  unfolding FRAME_DURATION_SECONDS_def FRAME_DURATION_def by code_simp

lemma BYTES_PER_SAMPLE_value: "BYTES_PER_SAMPLE = Num 2"
  unfolding BYTES_PER_SAMPLE_def BIT_DEPTH_def by code_simp

lemma FRAME_SIZE_value: "FRAME_SIZE = Num 960"
  unfolding FRAME_SIZE_def FRAME_DURATION_SECONDS_value BYTES_PER_SAMPLE_value
    SAMPLE_RATE_def NUM_CHANNELS_def
  by code_simp

section \<open>What each method does to the state\<close>

lemma fold_track_stop:
  "fold track_stop ts s = s\<lparr>trackState := (\<lambda>t. if t \<in> set ts then ended else trackState s t)\<rparr>"
proof (induction ts arbitrary: s)
  case Nil
  then show ?case by simp
next
  case (Cons a ts)
  then show ?case by (auto simp: track_stop_def fun_eq_iff)
qed

lemma stopBrowserViewStream_absent:
  "mediaStreams s viewId = None \<Longrightarrow> stopBrowserViewStream viewId s = s"
  by (simp add: stopBrowserViewStream_def)

lemma stopBrowserViewStream_active:
  "mediaStreams s viewId = Some stream \<Longrightarrow>
   stopBrowserViewStream viewId s =
     s\<lparr>trackState := (\<lambda>t. if t \<in> set (getTracks stream) then ended else trackState s t),
       mediaStreams := (mediaStreams s)(viewId := None)\<rparr>"
  by (simp add: stopBrowserViewStream_def fold_track_stop)

lemma stopBrowserViewStream_idem:
  "stopBrowserViewStream viewId (stopBrowserViewStream viewId s) = stopBrowserViewStream viewId s"
  by (cases "mediaStreams s viewId")
    (simp_all add: stopBrowserViewStream_absent stopBrowserViewStream_active)

text \<open>A record at a key that names nothing inherited is a map.\<close>

lemma js_get_not_inherited:
  "\<not> inherits members obj k \<Longrightarrow>
   js_get members obj k = Inr (case own obj k of None \<Rightarrow> Undefined | Some v \<Rightarrow> Value v)"
  by (auto simp: js_get_def inherits_def split: option.splits)

lemma js_set_not_inherited:
  "\<not> inherits members obj k \<Longrightarrow> js_set members obj k v = Inr (obj\<lparr>own := (own obj)(k \<mapsto> v)\<rparr>)"
  by (auto simp: js_set_def inherits_def split: option.splits)

lemma js_get_own: "own obj k = Some v \<Longrightarrow> js_get members obj k = Inr (Value v)"
  by (simp add: js_get_def)

lemma inherits_own_update [simp]: "inherits members (obj\<lparr>own := m\<rparr>) k = inherits members obj k"
  by (simp add: inherits_def interface_member_def)

lemma inherits_js_delete [simp]: "inherits members (js_delete obj k') k = inherits members obj k"
  by (simp add: js_delete_def)

lemma js_set_cases:
  "js_set members obj k v = Inr obj' \<Longrightarrow>
   obj' = obj\<lparr>own := (own obj)(k \<mapsto> v)\<rparr> \<or> obj' = obj\<lparr>prototype := Some v\<rparr>"
  by (auto simp: js_set_def split: option.splits member.splits if_splits)

lemma stopExternalAudioCapture_absent:
  "\<not> inherits (MediaStream_members P) (externalAudioStreams s) d \<Longrightarrow>
   own (externalAudioStreams s) d = None \<Longrightarrow> stopExternalAudioCapture P d s = Normal s"
  by (simp add: stopExternalAudioCapture_def js_get_not_inherited)

lemma stopExternalAudioCapture_active:
  "own (externalAudioStreams s) d = Some stream \<Longrightarrow>
   stopExternalAudioCapture P d s =
     Normal (s\<lparr>trackState := (\<lambda>t. if t \<in> set (getTracks stream) then ended else trackState s t),
       externalAudioStreams := js_delete (externalAudioStreams s) d,
       externalAudioStreamOutputs := js_delete (externalAudioStreamOutputs s) d\<rparr>)"
  by (simp add: stopExternalAudioCapture_def js_get_own fold_track_stop)

lemma stopExternalAudioCapture_idem:
  assumes "\<not> inherits (MediaStream_members P) (externalAudioStreams s) d"
  shows "stopExternalAudioCapture P d (state_of (stopExternalAudioCapture P d s)) =
         stopExternalAudioCapture P d s"
proof (cases "own (externalAudioStreams s) d")
  case None
  with assms show ?thesis by (simp add: stopExternalAudioCapture_absent)
next
  case (Some stream)
  let ?s' = "s\<lparr>trackState := (\<lambda>t. if t \<in> set (getTracks stream) then ended else trackState s t),
       externalAudioStreams := js_delete (externalAudioStreams s) d,
       externalAudioStreamOutputs := js_delete (externalAudioStreamOutputs s) d\<rparr>"
  have "stopExternalAudioCapture P d ?s' = Normal ?s'"
    using assms by (intro stopExternalAudioCapture_absent) (simp_all add: js_delete_def)
  then show ?thesis by (simp add: stopExternalAudioCapture_active [OF Some])
qed

lemma startBrowserViewStream_rejected:
  "getUserMedia (TabAudio h) = Rejected e \<Longrightarrow>
   startBrowserViewStream getUserMedia viewId h s =
     s\<lparr>console := console s @ [Unable_to_start_stream_for_web_view viewId, Error_object e]\<rparr>"
  by (simp add: startBrowserViewStream_def)

lemma startBrowserViewStream_fulfilled:
  "getUserMedia (TabAudio h) = Fulfilled stream \<Longrightarrow>
   startBrowserViewStream getUserMedia viewId h s =
     (let ctx = audioContext s; g = next_node ctx in
      s\<lparr>mediaStreams := (mediaStreams s)(viewId \<mapsto> stream),
        mediaStreamOutputs := (mediaStreamOutputs s)(viewId \<mapsto> g),
        audioContext := ctx\<lparr>nodes := (nodes ctx)(g \<mapsto> GainNode 1, g + 1 \<mapsto> MediaStreamAudioSourceNode stream),
           next_node := g + 2,
           connections := List.insert (g, audioOutputNode s) (List.insert (g + 1, g) (connections ctx))\<rparr>\<rparr>)"
  by (simp add: startBrowserViewStream_def createGain_def createMediaStreamSource_def new_node_def
      connect_def Let_def)

lemma startExternalAudioCapture_rejected:
  "getUserMedia (DeviceAudio d False False False) = Rejected e \<Longrightarrow>
   startExternalAudioCapture P getUserMedia d s =
     s\<lparr>console := console s @ [Unable_to_start_stream_for_external_audio_device d, Error_object e]\<rparr>"
  by (simp add: startExternalAudioCapture_def)

lemma startExternalAudioCapture_fulfilled:
  "getUserMedia (DeviceAudio d False False False) = Fulfilled stream \<Longrightarrow>
   \<not> inherits (MediaStream_members P) (externalAudioStreams s) d \<Longrightarrow>
   \<not> inherits (GainNode_members P) (externalAudioStreamOutputs s) d \<Longrightarrow>
   startExternalAudioCapture P getUserMedia d s =
     (let ctx = audioContext s; g = next_node ctx in
      s\<lparr>externalAudioStreams :=
          (externalAudioStreams s)\<lparr>own := (own (externalAudioStreams s))(d \<mapsto> stream)\<rparr>,
        externalAudioStreamOutputs :=
          (externalAudioStreamOutputs s)\<lparr>own := (own (externalAudioStreamOutputs s))(d \<mapsto> g)\<rparr>,
        audioContext := ctx\<lparr>nodes := (nodes ctx)(g \<mapsto> GainNode 1, g + 1 \<mapsto> MediaStreamAudioSourceNode stream),
           next_node := g + 2,
           connections := List.insert (g, audioOutputNode s) (List.insert (g + 1, g) (connections ctx))\<rparr>\<rparr>)"
  by (simp add: startExternalAudioCapture_def js_set_not_inherited createGain_def
      createMediaStreamSource_def new_node_def connect_def Let_def)

lemma setMuted_idem: "setMuted i m (setMuted i m s) = setMuted i m s"
  by (simp add: setMuted_def set_gain_def split: option.splits)

lemma constructor_value:
  "constructor = \<lparr>audioContext = \<lparr>latencyHint = ''playback'', sampleRate = Num 48000, nodes = [0 \<mapsto> GainNode 1],
                 next_node = 1, connections = []\<rparr>, audioOutputNode = 0, audioOutputElement = None,
          mediaStreams = Map.empty, mediaStreamOutputs = Map.empty,
          externalAudioStreams = \<lparr>own = Map.empty, prototype = None\<rparr>,
          externalAudioStreamOutputs = \<lparr>own = Map.empty, prototype = None\<rparr>,
          ws = None, trackState = (\<lambda>_. live), console = [], ipc = []\<rparr>"
  by (simp add: constructor_def createGain_def new_node_def SAMPLE_RATE_def empty_object_def)

section \<open>The invariant holds in every state of the manager\<close>

lemma registry_ok_constructor: "registry_ok constructor"
  by (simp add: registry_ok_def constructor_value device_gain_def)

lemma registry_ok_setMuted: "registry_ok s \<Longrightarrow> registry_ok (setMuted i m s)"
  by (auto simp: registry_ok_def setMuted_def set_gain_def device_gain_def split: option.splits)

lemma registry_ok_console [simp]: "registry_ok (s\<lparr>console := c\<rparr>) = registry_ok s"
  by (simp add: registry_ok_def device_gain_def)

lemma registry_ok_startBrowserViewStream: "registry_ok s \<Longrightarrow> registry_ok (startBrowserViewStream gum v h s)"
proof (cases "gum (TabAudio h)")
  case (Fulfilled stream)
  assume w: "registry_ok s"
  show ?thesis
    using w
    unfolding startBrowserViewStream_fulfilled [of gum h stream v s, OF Fulfilled] registry_ok_def Let_def
    by (auto simp: less_Suc_eq device_gain_def split: if_splits)
next
  case (Rejected e)
  assume "registry_ok s"
  then show ?thesis
    by (simp add: startBrowserViewStream_rejected [of gum h e v s, OF Rejected])
qed

lemma device_gain_js_set:
  "js_set members (externalAudioStreamOutputs s) d g = Inr outputs \<Longrightarrow>
   device_gain (s\<lparr>externalAudioStreamOutputs := outputs\<rparr>) g' \<Longrightarrow> device_gain s g' \<or> g' = g"
  by (drule js_set_cases) (auto simp: device_gain_def split: if_splits)


lemma registry_ok_externalAudioStreams [simp]:
  "registry_ok (s\<lparr>externalAudioStreams := x\<rparr>) = registry_ok s"
  by (simp add: registry_ok_def device_gain_def)

lemma registry_ok_trackState [simp]: "registry_ok (s\<lparr>trackState := x\<rparr>) = registry_ok s"
  by (simp add: registry_ok_def device_gain_def)

lemma registry_ok_cong:
  "audioContext s' = audioContext s \<Longrightarrow> audioOutputNode s' = audioOutputNode s \<Longrightarrow>
   mediaStreamOutputs s' = mediaStreamOutputs s \<Longrightarrow>
   externalAudioStreamOutputs s' = externalAudioStreamOutputs s \<Longrightarrow>
   registry_ok s' = registry_ok s"
  by (simp add: registry_ok_def device_gain_def)

lemma registry_ok_new_node:
  "registry_ok s \<Longrightarrow> registry_ok (s\<lparr>audioContext := snd (new_node n (audioContext s))\<rparr>)"
  by (auto simp: registry_ok_def new_node_def device_gain_def less_Suc_eq)

lemma registry_ok_connect:
  "registry_ok s \<Longrightarrow> a < next_node (audioContext s) \<Longrightarrow> b < next_node (audioContext s) \<Longrightarrow>
   registry_ok (s\<lparr>audioContext := connect a b (audioContext s)\<rparr>)"
  by (auto simp: registry_ok_def connect_def device_gain_def)

lemma registry_ok_record_device_gain:
  assumes "registry_ok s" and "js_set members (externalAudioStreamOutputs s) d g = Inr outputs"
    and "g < next_node (audioContext s)" and "g \<noteq> audioOutputNode s"
    and "\<forall>v. mediaStreamOutputs s v \<noteq> Some g"
  shows "registry_ok (s\<lparr>externalAudioStreamOutputs := outputs\<rparr>)"
proof -
  have d: "device_gain (s\<lparr>externalAudioStreamOutputs := outputs\<rparr>) g' \<Longrightarrow> device_gain s g' \<or> g' = g"
    for g' using assms(2) by (rule device_gain_js_set)
  show ?thesis
    using assms(1,3,4,5) d unfolding registry_ok_def by (simp; blast)
qed

lemma registry_ok_startExternalAudioCapture:
  assumes "registry_ok s"
  shows "registry_ok (startExternalAudioCapture P gum d s)"
proof (cases "gum (DeviceAudio d False False False)")
  case (Rejected e)
  with assms show ?thesis by (simp add: startExternalAudioCapture_rejected [of gum d e P s])
next
  case (Fulfilled stream)
  show ?thesis
  proof (cases "js_set (MediaStream_members P) (externalAudioStreams s) d stream")
    case (Inl e)
    with assms Fulfilled show ?thesis by (simp add: startExternalAudioCapture_def)
  next
    case (Inr streams)
    define g where "g = next_node (audioContext s)"
    define s2 where "s2 = s\<lparr>audioContext := snd (new_node (GainNode 1) (audioContext s)),
      externalAudioStreams := streams\<rparr>"
    have ok2: "registry_ok s2"
      using registry_ok_new_node [OF assms, of "GainNode 1"] by (simp add: s2_def)
    have n2: "next_node (audioContext s2) = g + 1" "audioOutputNode s2 = audioOutputNode s"
      "mediaStreamOutputs s2 = mediaStreamOutputs s"
      "externalAudioStreamOutputs s2 = externalAudioStreamOutputs s"
      by (simp_all add: s2_def new_node_def g_def)
    have fresh: "g \<noteq> audioOutputNode s" "\<forall>v. mediaStreamOutputs s v \<noteq> Some g"
      using assms by (auto simp: registry_ok_def g_def)
    show ?thesis
    proof (cases "js_set (GainNode_members P) (externalAudioStreamOutputs s) d g")
      case (Inl e)
      have "registry_ok (startExternalAudioCapture P gum d s) = registry_ok s2"
        using Inl Fulfilled \<open>js_set (MediaStream_members P) (externalAudioStreams s) d stream = Inr streams\<close>
        by (intro registry_ok_cong)
          (simp_all add: startExternalAudioCapture_def createGain_def new_node_def g_def s2_def Let_def)
      with ok2 show ?thesis by simp
    next
      case (Inr outputs)
      define s3 where "s3 = s2\<lparr>externalAudioStreamOutputs := outputs\<rparr>"
      have ok3: "registry_ok s3"
        unfolding s3_def
        using ok2 Inr fresh n2 by (intro registry_ok_record_device_gain [where g = g and d = d]) simp_all
      define s4 where "s4 = s3\<lparr>audioContext := snd (new_node (MediaStreamAudioSourceNode stream) (audioContext s3))\<rparr>"
      have ok4: "registry_ok s4" unfolding s4_def by (rule registry_ok_new_node [OF ok3])
      have n4: "next_node (audioContext s4) = g + 2" "audioOutputNode s4 = audioOutputNode s"
        by (simp_all add: s4_def s3_def n2 new_node_def)
      have out: "audioOutputNode s < g" using assms by (simp add: registry_ok_def g_def)
      define s5 where "s5 = s4\<lparr>audioContext := connect (g + 1) g (audioContext s4)\<rparr>"
      have ok5: "registry_ok s5" unfolding s5_def
        by (rule registry_ok_connect [OF ok4]) (simp_all add: n4)
      have n5: "next_node (audioContext s5) = g + 2" by (simp add: s5_def connect_def n4)
      have ok6: "registry_ok (s5\<lparr>audioContext := connect g (audioOutputNode s) (audioContext s5)\<rparr>)"
        using out by (intro registry_ok_connect [OF ok5]) (simp_all add: n5)
      have "startExternalAudioCapture P gum d s =
            s5\<lparr>audioContext := connect g (audioOutputNode s) (audioContext s5)\<rparr>"
        using Fulfilled \<open>js_set (MediaStream_members P) (externalAudioStreams s) d stream = Inr streams\<close> Inr
        by (simp add: startExternalAudioCapture_def createGain_def createMediaStreamSource_def
            new_node_def g_def s2_def s3_def s4_def s5_def Let_def connect_def)
      with ok6 show ?thesis by simp
    qed
  qed
qed

lemma registry_ok_stopBrowserViewStream: "registry_ok s \<Longrightarrow> registry_ok (stopBrowserViewStream v s)"
  by (cases "mediaStreams s v")
    (simp_all add: stopBrowserViewStream_absent stopBrowserViewStream_active registry_ok_def
      device_gain_def)

lemma registry_ok_stopExternalAudioCapture:
  "registry_ok s \<Longrightarrow> registry_ok (state_of (stopExternalAudioCapture P d s))"
  by (auto simp: stopExternalAudioCapture_def fold_track_stop registry_ok_def device_gain_def
      js_delete_def split: sum.splits js_value.splits if_splits)

lemma registry_ok_setLoopback: "registry_ok s \<Longrightarrow> registry_ok (state_of (setLoopback b s))"
  by (auto simp: setLoopback_def registry_ok_def device_gain_def split: option.splits)

lemma registry_ok_pcm_onmessage: "registry_ok s \<Longrightarrow> registry_ok (pcm_onmessage f s)"
  by (auto simp: pcm_onmessage_def registry_ok_def device_gain_def split: option.splits)

lemma registry_ok_setup: "registry_ok s \<Longrightarrow> registry_ok (state_of (setup_manager a s))"
  by (auto simp: setup_manager_def setupWebsocket_def setupLoopback_def registry_ok_def connect_def
      createMediaStreamDestination_def new_node_def less_Suc_eq device_gain_def
      split: promise_outcome.splits)

lemma registry_ok_start: "registry_ok s \<Longrightarrow> registry_ok (state_of (start a m s))"
  by (auto simp: start_def startBrowserStream_def registry_ok_def connect_def
      newAudioWorkletNode_def new_node_def less_Suc_eq Let_def device_gain_def
      split: promise_outcome.splits)

lemma registry_ok_ws_onclose: "registry_ok s \<Longrightarrow> registry_ok (ws_onclose code s)"
  by (simp add: ws_onclose_def registry_ok_def device_gain_def)

lemma registry_ok_audio_onloadedmetadata:
  "registry_ok s \<Longrightarrow> registry_ok (audio_onloadedmetadata s)"
  by (simp add: audio_onloadedmetadata_def registry_ok_def device_gain_def split: option.splits)

lemma reachable_registry_ok: "reachable P s \<Longrightarrow> registry_ok s"
proof (induction rule: reachable.induct)
  case reachable_constructor
  show ?case by (rule registry_ok_constructor)
next
  case (reachable_setup s websocketAddress)
  then show ?case by (simp add: registry_ok_setup)
next
  case (reachable_start s addModule streamingMode)
  then show ?case by (simp add: registry_ok_start)
next
  case (reachable_setMuted s id' muted')
  then show ?case by (simp add: registry_ok_setMuted)
next
  case (reachable_setLoopback s loopback)
  then show ?case by (simp add: registry_ok_setLoopback)
next
  case (reachable_startExternalAudioCapture s getUserMedia d)
  then show ?case by (simp add: registry_ok_startExternalAudioCapture)
next
  case (reachable_stopExternalAudioCapture s d)
  then show ?case by (simp add: registry_ok_stopExternalAudioCapture)
next
  case (reachable_startBrowserViewStream s getUserMedia viewId mediaSourceId)
  then show ?case by (simp add: registry_ok_startBrowserViewStream)
next
  case (reachable_stopBrowserViewStream s viewId)
  then show ?case by (simp add: registry_ok_stopBrowserViewStream)
next
  case (reachable_pcm_onmessage s data)
  then show ?case by (simp add: registry_ok_pcm_onmessage)
next
  case (reachable_ws_onclose s code)
  then show ?case by (simp add: registry_ok_ws_onclose)
next
  case (reachable_audio_onloadedmetadata s)
  then show ?case by (simp add: registry_ok_audio_onloadedmetadata)
qed

section \<open>The example states\<close>

lemma inherits_initially:
  "prototype obj = None \<Longrightarrow>
   inherits members obj k \<longleftrightarrow> k = ''__proto__'' \<or> k \<in> set Object_prototype_methods"
  by (simp add: inherits_def interface_member_def)

lemma not_inherits_mic:
  "prototype obj = None \<Longrightarrow> \<not> inherits members obj ''mic-1''"
  "prototype obj = None \<Longrightarrow> \<not> inherits members obj ''mic-2''"
  by (simp_all add: inherits_initially Object_prototype_methods_def)

lemma startBrowserViewStream_granting:
  "startBrowserViewStream (granting ts) viewId h s =
     (let ctx = audioContext s; g = next_node ctx in
      s\<lparr>mediaStreams := (mediaStreams s)(viewId \<mapsto> MediaStream ts),
        mediaStreamOutputs := (mediaStreamOutputs s)(viewId \<mapsto> g),
        audioContext := ctx\<lparr>nodes := (nodes ctx)(g \<mapsto> GainNode 1, g + 1 \<mapsto> MediaStreamAudioSourceNode (MediaStream ts)),
           next_node := g + 2,
           connections := List.insert (g, audioOutputNode s) (List.insert (g + 1, g) (connections ctx))\<rparr>\<rparr>)"
  by (rule startBrowserViewStream_fulfilled) (simp add: granting_def)

lemma startExternalAudioCapture_granting:
  "\<not> inherits (MediaStream_members P) (externalAudioStreams s) d \<Longrightarrow>
   \<not> inherits (GainNode_members P) (externalAudioStreamOutputs s) d \<Longrightarrow>
   startExternalAudioCapture P (granting ts) d s =
     (let ctx = audioContext s; g = next_node ctx in
      s\<lparr>externalAudioStreams :=
          (externalAudioStreams s)\<lparr>own := (own (externalAudioStreams s))(d \<mapsto> MediaStream ts)\<rparr>,
        externalAudioStreamOutputs :=
          (externalAudioStreamOutputs s)\<lparr>own := (own (externalAudioStreamOutputs s))(d \<mapsto> g)\<rparr>,
        audioContext := ctx\<lparr>nodes := (nodes ctx)(g \<mapsto> GainNode 1, g + 1 \<mapsto> MediaStreamAudioSourceNode (MediaStream ts)),
           next_node := g + 2,
           connections := List.insert (g, audioOutputNode s) (List.insert (g + 1, g) (connections ctx))\<rparr>\<rparr>)"
  by (rule startExternalAudioCapture_fulfilled) (simp_all add: granting_def)

lemma view5_value:
  "view5 = \<lparr>audioContext = \<lparr>latencyHint = ''playback'', sampleRate = Num 48000,
        nodes = [0 \<mapsto> GainNode 1, 1 \<mapsto> GainNode 1, 2 \<mapsto> MediaStreamAudioSourceNode (MediaStream [0])],
        next_node = 3, connections = [(1, 0), (2, 1)]\<rparr>,
      audioOutputNode = 0, audioOutputElement = None,
      mediaStreams = [5 \<mapsto> MediaStream [0]], mediaStreamOutputs = [5 \<mapsto> 1],
      externalAudioStreams = \<lparr>own = Map.empty, prototype = None\<rparr>,
      externalAudioStreamOutputs = \<lparr>own = Map.empty, prototype = None\<rparr>,
      ws = None, trackState = (\<lambda>_. live), console = [], ipc = []\<rparr>"
  by (simp add: view5_def startBrowserViewStream_granting constructor_value Let_def
      del: One_nat_def)

lemma view5_twice_value:
  "view5_twice = \<lparr>audioContext = \<lparr>latencyHint = ''playback'', sampleRate = Num 48000,
        nodes = [0 \<mapsto> GainNode 1, 1 \<mapsto> GainNode 1, 2 \<mapsto> MediaStreamAudioSourceNode (MediaStream [0]),
                 3 \<mapsto> GainNode 1, 4 \<mapsto> MediaStreamAudioSourceNode (MediaStream [1])],
        next_node = 5, connections = [(3, 0), (4, 3), (1, 0), (2, 1)]\<rparr>,
      audioOutputNode = 0, audioOutputElement = None,
      mediaStreams = [5 \<mapsto> MediaStream [1]], mediaStreamOutputs = [5 \<mapsto> 3],
      externalAudioStreams = \<lparr>own = Map.empty, prototype = None\<rparr>,
      externalAudioStreamOutputs = \<lparr>own = Map.empty, prototype = None\<rparr>,
      ws = None, trackState = (\<lambda>_. live), console = [], ipc = []\<rparr>"
  by (simp add: view5_twice_def view5_value startBrowserViewStream_granting Let_def
      del: One_nat_def)

lemma mic1_value:
  "mic1 = \<lparr>audioContext = \<lparr>latencyHint = ''playback'', sampleRate = Num 48000,
        nodes = [0 \<mapsto> GainNode 1, 1 \<mapsto> GainNode 1, 2 \<mapsto> MediaStreamAudioSourceNode (MediaStream [0])],
        next_node = 3, connections = [(1, 0), (2, 1)]\<rparr>,
      audioOutputNode = 0, audioOutputElement = None,
      mediaStreams = Map.empty, mediaStreamOutputs = Map.empty,
      externalAudioStreams = \<lparr>own = [''mic-1'' \<mapsto> MediaStream [0]], prototype = None\<rparr>,
      externalAudioStreamOutputs = \<lparr>own = [''mic-1'' \<mapsto> 1], prototype = None\<rparr>,
      ws = None, trackState = (\<lambda>_. live), console = [], ipc = []\<rparr>"
  by (simp add: mic1_def startExternalAudioCapture_granting not_inherits_mic constructor_value Let_def
      del: One_nat_def)

lemma view5_mic1_value:
  "view5_mic1 = \<lparr>audioContext = \<lparr>latencyHint = ''playback'', sampleRate = Num 48000,
        nodes = [0 \<mapsto> GainNode 1, 1 \<mapsto> GainNode 1, 2 \<mapsto> MediaStreamAudioSourceNode (MediaStream [0]),
                 3 \<mapsto> GainNode 1, 4 \<mapsto> MediaStreamAudioSourceNode (MediaStream [1])],
        next_node = 5, connections = [(3, 0), (4, 3), (1, 0), (2, 1)]\<rparr>,
      audioOutputNode = 0, audioOutputElement = None,
      mediaStreams = [5 \<mapsto> MediaStream [0]], mediaStreamOutputs = [5 \<mapsto> 1],
      externalAudioStreams = \<lparr>own = [''mic-1'' \<mapsto> MediaStream [1]], prototype = None\<rparr>,
      externalAudioStreamOutputs = \<lparr>own = [''mic-1'' \<mapsto> 3], prototype = None\<rparr>,
      ws = None, trackState = (\<lambda>_. live), console = [], ipc = []\<rparr>"
  by (simp add: view5_mic1_def view5_value startExternalAudioCapture_granting not_inherits_mic Let_def
      del: One_nat_def)

lemma registry_ok_view5: "registry_ok view5"
  unfolding view5_def by (intro registry_ok_startBrowserViewStream registry_ok_constructor)

lemma registry_ok_view5_mic1: "registry_ok view5_mic1"
  unfolding view5_mic1_def by (intro registry_ok_startExternalAudioCapture registry_ok_view5)

section \<open>Device ids that name inherited properties\<close>

text \<open>
  With nothing recorded, stopping the device \<open>toString\<close> reads the method that every
  object inherits, and throws; so does the second stop after a start and a stop.
\<close>

lemma stop_toString_throws:
  "stopExternalAudioCapture P ''toString'' constructor = Throw ''TypeError'' constructor"
  by (simp add: stopExternalAudioCapture_def js_get_def interface_member_def constructor_value
      Object_prototype_methods_def)

lemma toString_started_value:
  "toString_started =
     \<lparr>audioContext = \<lparr>latencyHint = ''playback'', sampleRate = Num 48000,
        nodes = [0 \<mapsto> GainNode 1, 1 \<mapsto> GainNode 1, 2 \<mapsto> MediaStreamAudioSourceNode (MediaStream [0])],
        next_node = 3, connections = [(1, 0), (2, 1)]\<rparr>,
      audioOutputNode = 0, audioOutputElement = None,
      mediaStreams = Map.empty, mediaStreamOutputs = Map.empty,
      externalAudioStreams = \<lparr>own = [''toString'' \<mapsto> MediaStream [0]], prototype = None\<rparr>,
      externalAudioStreamOutputs = \<lparr>own = [''toString'' \<mapsto> 1], prototype = None\<rparr>,
      ws = None, trackState = (\<lambda>_. live), console = [], ipc = []\<rparr>"
  by (simp add: toString_started_def startExternalAudioCapture_def granting_def js_set_def
      interface_member_def constructor_value createGain_def createMediaStreamSource_def
      new_node_def connect_def del: One_nat_def)

lemma stop_toString_twice_throws:
  "stopExternalAudioCapture browser ''toString'' toString_started =
     Normal (toString_started
       \<lparr>trackState := (\<lambda>t. if t = 0 then ended else live),
        externalAudioStreams := \<lparr>own = Map.empty, prototype = None\<rparr>,
        externalAudioStreamOutputs := \<lparr>own = Map.empty, prototype = None\<rparr>\<rparr>) \<and>
   stopExternalAudioCapture browser ''toString''
     (state_of (stopExternalAudioCapture browser ''toString'' toString_started)) =
     Throw ''TypeError'' (state_of (stopExternalAudioCapture browser ''toString'' toString_started))"
  by (simp add: toString_started_value stopExternalAudioCapture_def js_get_def js_delete_def
      interface_member_def Object_prototype_methods_def track_stop_def fun_eq_iff)

text \<open>
  A start for the device \<open>__proto__\<close> makes no entry: the stream and the gain node become
  the prototypes of the two records. A stop then stops the tracks of the stream and
  removes nothing.
\<close>

lemma proto_started_value:
  "proto_started =
     \<lparr>audioContext = \<lparr>latencyHint = ''playback'', sampleRate = Num 48000,
        nodes = [0 \<mapsto> GainNode 1, 1 \<mapsto> GainNode 1, 2 \<mapsto> MediaStreamAudioSourceNode (MediaStream [0])],
        next_node = 3, connections = [(1, 0), (2, 1)]\<rparr>,
      audioOutputNode = 0, audioOutputElement = None,
      mediaStreams = Map.empty, mediaStreamOutputs = Map.empty,
      externalAudioStreams = \<lparr>own = Map.empty, prototype = Some (MediaStream [0])\<rparr>,
      externalAudioStreamOutputs = \<lparr>own = Map.empty, prototype = Some 1\<rparr>,
      ws = None, trackState = (\<lambda>_. live), console = [], ipc = []\<rparr>"
  by (simp add: proto_started_def startExternalAudioCapture_def granting_def js_set_def
      interface_member_def constructor_value createGain_def createMediaStreamSource_def
      new_node_def connect_def del: One_nat_def)

lemma stop_proto_removes_nothing:
  "stopExternalAudioCapture browser ''__proto__'' proto_started =
     Normal (proto_started\<lparr>trackState := (\<lambda>t. if t = 0 then ended else live)\<rparr>)"
  by (simp add: proto_started_value stopExternalAudioCapture_def js_get_def js_delete_def
      interface_member_def browser_def track_stop_def fun_eq_iff)

text \<open>
  With a stream as the prototype, a start for the device \<open>id\<close>, the name of an attribute
  of a stream, fails at the first assignment, and a stop for it at the read.
\<close>

lemma start_attribute_after_proto:
  "startExternalAudioCapture browser (granting [1]) ''id'' proto_started =
     proto_started\<lparr>console :=
       [Unable_to_start_stream_for_external_audio_device ''id'', Error_object ''TypeError'']\<rparr>"
  by (simp add: proto_started_value startExternalAudioCapture_def granting_def js_set_def
      interface_member_def browser_def)

lemma stop_attribute_after_proto:
  "stopExternalAudioCapture browser ''id'' proto_started = Throw ''TypeError'' proto_started"
  by (simp add: proto_started_value stopExternalAudioCapture_def js_get_def
      interface_member_def browser_def)

section \<open>The handler of the worklet port\<close>

lemma ws_is_open_pcm_onmessage: "ws_is_open (pcm_onmessage f s) = ws_is_open s"
  by (simp add: ws_is_open_def pcm_onmessage_def split: option.splits)

lemma transmitted_pcm_onmessage:
  "transmitted (pcm_onmessage f s) = (if ws_is_open s then transmitted s @ [f] else transmitted s)"
  by (simp add: ws_is_open_def transmitted_def pcm_onmessage_def split: option.splits)

lemma pcm_onmessage_not_open: "\<not> ws_is_open s \<Longrightarrow> pcm_onmessage f s = s"
  by (simp add: ws_is_open_def pcm_onmessage_def split: option.splits)

lemma transmitted_fold_pcm_onmessage:
  "transmitted (fold pcm_onmessage frames s) =
     (if ws_is_open s then transmitted s @ frames else transmitted s)"
  by (induction frames arbitrary: s)
    (simp_all add: ws_is_open_pcm_onmessage transmitted_pcm_onmessage)

lemma closed_socket_not_open: "\<not> ws_is_open closed_socket"
  by (simp add: closed_socket_def ws_is_open_def)

lemma ws_is_open_audioOutputElement_update:
  "ws_is_open (s\<lparr>audioOutputElement := x\<rparr>) = ws_is_open s"
  by (simp add: ws_is_open_def)

lemma transmitted_audioOutputElement_update:
  "transmitted (s\<lparr>audioOutputElement := x\<rparr>) = transmitted s"
  by (simp add: transmitted_def)

section \<open>C1: starting a capture twice\<close>

text \<open>
  Claim C1 says that a start for an id with an active source is a failure without effect,
  answered with \<open>DuplicateSource\<close>, so that one source stays active. The methods have no
  such check. Two calls of \<open>startBrowserViewStream\<close> for view 5, both granted: the second
  call changes the state, the record of view 5 moves from gain node 1 to the new gain
  node 3, both gain nodes feed the mix bus (node 0), and the first stream, of track 0,
  still has its source node and a live track.
\<close>

theorem start_twice_counterexample:
  "view5_twice \<noteq> view5 \<and>
   mediaStreamOutputs view5 5 = Some 1 \<and> mediaStreamOutputs view5_twice 5 = Some 3 \<and>
   inputs_of (audioOutputNode view5_twice) (audioContext view5_twice) = [3, 1] \<and>
   nodes (audioContext view5_twice) 2 = Some (MediaStreamAudioSourceNode (MediaStream [0])) \<and>
   trackState view5_twice 0 = live"
proof -
  have "mediaStreamOutputs view5_twice 5 \<noteq> mediaStreamOutputs view5 5"
    by (simp add: view5_value view5_twice_value)
  then have "view5_twice \<noteq> view5" by auto
  then show ?thesis
    by (simp add: view5_value view5_twice_value inputs_of_def)
qed

text \<open>
  Claim C1, amended: a granted start for a view id, or for a device id that names nothing
  that the records of the devices inherit, whether or not the id has a source already,
  records the new stream and a new gain node under the id in place of what was recorded
  (an id has one record), creates the gain node and the source node, and adds their two
  connections; the nodes, connections and tracks of an earlier source are left as they
  are, and the records of the other kind are not touched. In a state that satisfies the
  invariant the two new nodes are new: their identifiers name no node of the graph, no
  end of a connection and no recorded gain node.
\<close>

theorem start_replaces_registration:
  "(getUserMedia (TabAudio h) = Fulfilled stream \<longrightarrow>
      (let s' = startBrowserViewStream getUserMedia viewId h s; g = next_node (audioContext s) in
         mediaStreams s' = (mediaStreams s)(viewId \<mapsto> stream) \<and>
         mediaStreamOutputs s' = (mediaStreamOutputs s)(viewId \<mapsto> g) \<and>
         nodes (audioContext s') =
           (nodes (audioContext s))(g \<mapsto> GainNode 1, g + 1 \<mapsto> MediaStreamAudioSourceNode stream) \<and>
         set (connections (audioContext s')) =
           set (connections (audioContext s)) \<union> {(g + 1, g), (g, audioOutputNode s)} \<and>
         trackState s' = trackState s \<and> console s' = console s \<and>
         externalAudioStreams s' = externalAudioStreams s \<and>
         externalAudioStreamOutputs s' = externalAudioStreamOutputs s)) \<and>
   (getUserMedia (DeviceAudio d False False False) = Fulfilled stream \<and>
    \<not> inherits (MediaStream_members P) (externalAudioStreams s) d \<and>
    \<not> inherits (GainNode_members P) (externalAudioStreamOutputs s) d \<longrightarrow>
      (let s' = startExternalAudioCapture P getUserMedia d s; g = next_node (audioContext s) in
         own (externalAudioStreams s') = (own (externalAudioStreams s))(d \<mapsto> stream) \<and>
         prototype (externalAudioStreams s') = prototype (externalAudioStreams s) \<and>
         own (externalAudioStreamOutputs s') = (own (externalAudioStreamOutputs s))(d \<mapsto> g) \<and>
         prototype (externalAudioStreamOutputs s') = prototype (externalAudioStreamOutputs s) \<and>
         nodes (audioContext s') =
           (nodes (audioContext s))(g \<mapsto> GainNode 1, g + 1 \<mapsto> MediaStreamAudioSourceNode stream) \<and>
         set (connections (audioContext s')) =
           set (connections (audioContext s)) \<union> {(g + 1, g), (g, audioOutputNode s)} \<and>
         trackState s' = trackState s \<and> console s' = console s \<and>
         mediaStreams s' = mediaStreams s \<and>
         mediaStreamOutputs s' = mediaStreamOutputs s)) \<and>
   (registry_ok s \<longrightarrow>
      (let g = next_node (audioContext s) in
         nodes (audioContext s) g = None \<and> nodes (audioContext s) (g + 1) = None \<and>
         (\<forall>c \<in> set (connections (audioContext s)).
            fst c \<noteq> g \<and> fst c \<noteq> g + 1 \<and> snd c \<noteq> g \<and> snd c \<noteq> g + 1) \<and>
         g \<noteq> audioOutputNode s \<and> g + 1 \<noteq> audioOutputNode s \<and>
         (\<forall>v. mediaStreamOutputs s v \<noteq> Some g) \<and> \<not> device_gain s g))"
proof (intro conjI impI)
  assume f: "getUserMedia (TabAudio h) = Fulfilled stream"
  show "let s' = startBrowserViewStream getUserMedia viewId h s; g = next_node (audioContext s) in
         mediaStreams s' = (mediaStreams s)(viewId \<mapsto> stream) \<and>
         mediaStreamOutputs s' = (mediaStreamOutputs s)(viewId \<mapsto> g) \<and>
         nodes (audioContext s') =
           (nodes (audioContext s))(g \<mapsto> GainNode 1, g + 1 \<mapsto> MediaStreamAudioSourceNode stream) \<and>
         set (connections (audioContext s')) =
           set (connections (audioContext s)) \<union> {(g + 1, g), (g, audioOutputNode s)} \<and>
         trackState s' = trackState s \<and> console s' = console s \<and>
         externalAudioStreams s' = externalAudioStreams s \<and>
         externalAudioStreamOutputs s' = externalAudioStreamOutputs s"
    unfolding startBrowserViewStream_fulfilled [of getUserMedia h stream viewId s, OF f]
    by (auto simp: Let_def)
next
  assume a: "getUserMedia (DeviceAudio d False False False) = Fulfilled stream \<and>
    \<not> inherits (MediaStream_members P) (externalAudioStreams s) d \<and>
    \<not> inherits (GainNode_members P) (externalAudioStreamOutputs s) d"
  show "let s' = startExternalAudioCapture P getUserMedia d s; g = next_node (audioContext s) in
         own (externalAudioStreams s') = (own (externalAudioStreams s))(d \<mapsto> stream) \<and>
         prototype (externalAudioStreams s') = prototype (externalAudioStreams s) \<and>
         own (externalAudioStreamOutputs s') = (own (externalAudioStreamOutputs s))(d \<mapsto> g) \<and>
         prototype (externalAudioStreamOutputs s') = prototype (externalAudioStreamOutputs s) \<and>
         nodes (audioContext s') =
           (nodes (audioContext s))(g \<mapsto> GainNode 1, g + 1 \<mapsto> MediaStreamAudioSourceNode stream) \<and>
         set (connections (audioContext s')) =
           set (connections (audioContext s)) \<union> {(g + 1, g), (g, audioOutputNode s)} \<and>
         trackState s' = trackState s \<and> console s' = console s \<and>
         mediaStreams s' = mediaStreams s \<and>
         mediaStreamOutputs s' = mediaStreamOutputs s"
    using a
    unfolding startExternalAudioCapture_fulfilled [of getUserMedia d stream P s, OF conjunct1 [OF a]
        conjunct1 [OF conjunct2 [OF a]] conjunct2 [OF conjunct2 [OF a]]]
    by (auto simp: Let_def)
next
  assume r: "registry_ok s"
  show "let g = next_node (audioContext s) in
         nodes (audioContext s) g = None \<and> nodes (audioContext s) (g + 1) = None \<and>
         (\<forall>c \<in> set (connections (audioContext s)).
            fst c \<noteq> g \<and> fst c \<noteq> g + 1 \<and> snd c \<noteq> g \<and> snd c \<noteq> g + 1) \<and>
         g \<noteq> audioOutputNode s \<and> g + 1 \<noteq> audioOutputNode s \<and>
         (\<forall>v. mediaStreamOutputs s v \<noteq> Some g) \<and> \<not> device_gain s g"
    using r unfolding registry_ok_def Let_def by fastforce
qed

text \<open>
  The amended claim at the second start for view 5: the stream of track 1 and gain node 3
  take the place of the stream of track 0 and gain node 1, which stays, with its gain,
  connected to the mix bus; and at a start for the device \<open>mic-1\<close>.
\<close>

theorem start_replaces_registration_witness:
  "granting [1] (TabAudio ''h2'') = Fulfilled (MediaStream [1]) \<and>
   granting [1] (DeviceAudio ''mic-1'' False False False) = Fulfilled (MediaStream [1]) \<and>
   \<not> inherits (MediaStream_members browser) (externalAudioStreams view5) ''mic-1'' \<and>
   \<not> inherits (GainNode_members browser) (externalAudioStreamOutputs view5) ''mic-1'' \<and>
   registry_ok view5 \<and>
   mediaStreams view5 5 = Some (MediaStream [0]) \<and>
   mediaStreamOutputs view5 5 = Some 1 \<and>
   mediaStreams view5_twice 5 = Some (MediaStream [1]) \<and>
   mediaStreamOutputs view5_twice 5 = Some 3 \<and>
   nodes (audioContext view5) 3 = None \<and>
   nodes (audioContext view5_twice) 1 = Some (GainNode 1) \<and>
   nodes (audioContext view5_twice) 3 = Some (GainNode 1) \<and>
   (1, 0) \<in> set (connections (audioContext view5_twice)) \<and>
   (3, 0) \<in> set (connections (audioContext view5_twice)) \<and>
   own (externalAudioStreams view5_mic1) ''mic-1'' = Some (MediaStream [1]) \<and>
   own (externalAudioStreamOutputs view5_mic1) ''mic-1'' = Some 3"
proof -
  have f: "granting [1] (TabAudio ''h2'') = Fulfilled (MediaStream [1])"
    "granting [1] (DeviceAudio ''mic-1'' False False False) = Fulfilled (MediaStream [1])"
    by (simp_all add: granting_def)
  have i: "\<not> inherits (MediaStream_members browser) (externalAudioStreams view5) ''mic-1''"
    "\<not> inherits (GainNode_members browser) (externalAudioStreamOutputs view5) ''mic-1''"
    by (simp_all add: not_inherits_mic view5_value)
  have n: "next_node (audioContext view5) = 3" "audioOutputNode view5 = 0"
    "(1, 0) \<in> set (connections (audioContext view5))"
    "mediaStreams view5 5 = Some (MediaStream [0])"
    "mediaStreamOutputs view5 5 = Some 1"
    "nodes (audioContext view5) 1 = Some (GainNode 1)"
    by (simp_all add: view5_value)
  show ?thesis
    using start_replaces_registration
      [of "granting [1]" "''h2''" "MediaStream [1]" 5 view5 "''mic-1''" browser] f i n registry_ok_view5
    by (simp add: view5_twice_def view5_mic1_def Let_def)
qed

section \<open>C2: stopping a capture\<close>

text \<open>
  Claim C2 says that stopping an active source disconnects its gain stage from the mix
  bus. Nothing in the manager disconnects a node: after the device \<open>mic-1\<close> has been
  started and stopped, its gain node 1 is still connected to the mix bus, node 0.
\<close>

theorem stop_keeps_gain_connected_counterexample:
  "own (externalAudioStreams mic1) ''mic-1'' = Some (MediaStream [0]) \<and>
   own (externalAudioStreamOutputs mic1) ''mic-1'' = Some 1 \<and>
   audioOutputNode (state_of (stopExternalAudioCapture browser ''mic-1'' mic1)) = 0 \<and>
   (1, 0) \<in> set (connections (audioContext (state_of (stopExternalAudioCapture browser ''mic-1'' mic1))))"
proof -
  have r: "own (externalAudioStreams mic1) ''mic-1'' = Some (MediaStream [0])"
    by (simp add: mic1_value)
  show ?thesis
    by (simp add: stopExternalAudioCapture_active [OF r]) (simp add: mic1_value)
qed

text \<open>
  Claim C2, amended: for every view id, and for every device id that names nothing that
  the record of the device streams inherits, stop is idempotent and changes nothing when
  no stream is recorded under the id; when one is recorded, it stops every track of it
  and removes the stream record, \<open>stopExternalAudioCapture\<close> also the gain record, and
  the audio graph with its connections stays as it is. (What \<open>stopBrowserViewStream\<close>
  does with the gain record is the subject of claim C10.)
\<close>

theorem stop_idempotent_releases_tracks:
  "stopBrowserViewStream v (stopBrowserViewStream v s) = stopBrowserViewStream v s \<and>
   (mediaStreams s v = None \<longrightarrow> stopBrowserViewStream v s = s) \<and>
   (mediaStreams s v = Some stream \<longrightarrow>
      (\<forall>t \<in> set (getTracks stream). trackState (stopBrowserViewStream v s) t = ended) \<and>
      mediaStreams (stopBrowserViewStream v s) v = None \<and>
      audioContext (stopBrowserViewStream v s) = audioContext s) \<and>
   (\<not> inherits (MediaStream_members P) (externalAudioStreams s) d \<longrightarrow>
      stopExternalAudioCapture P d (state_of (stopExternalAudioCapture P d s)) =
        stopExternalAudioCapture P d s \<and>
      (own (externalAudioStreams s) d = None \<longrightarrow> stopExternalAudioCapture P d s = Normal s) \<and>
      (own (externalAudioStreams s) d = Some stream' \<longrightarrow>
         (\<exists>s'. stopExternalAudioCapture P d s = Normal s' \<and>
            (\<forall>t \<in> set (getTracks stream'). trackState s' t = ended) \<and>
            js_get (MediaStream_members P) (externalAudioStreams s') d = Inr Undefined \<and>
            own (externalAudioStreams s') d = None \<and>
            own (externalAudioStreamOutputs s') d = None \<and>
            audioContext s' = audioContext s)))"
  by (simp add: stopBrowserViewStream_idem stopExternalAudioCapture_idem
      stopBrowserViewStream_absent stopExternalAudioCapture_absent
      stopBrowserViewStream_active stopExternalAudioCapture_active
      js_get_not_inherited js_delete_def)

text \<open>
  The amended claim at view 5 and at the device \<open>mic-1\<close>, each with one live track, and
  at view 7 and the device \<open>mic-2\<close>, which have no source.
\<close>

theorem stop_idempotent_releases_tracks_witness:
  "mediaStreams view5 5 = Some (MediaStream [0]) \<and>
   own (externalAudioStreams mic1) ''mic-1'' = Some (MediaStream [0]) \<and>
   mediaStreams view5 7 = None \<and> own (externalAudioStreams mic1) ''mic-2'' = None \<and>
   \<not> inherits (MediaStream_members browser) (externalAudioStreams mic1) ''mic-1'' \<and>
   \<not> inherits (MediaStream_members browser) (externalAudioStreams mic1) ''mic-2'' \<and>
   trackState view5 0 = live \<and> trackState (stopBrowserViewStream 5 view5) 0 = ended \<and>
   mediaStreams (stopBrowserViewStream 5 view5) 5 = None \<and>
   stopBrowserViewStream 7 view5 = view5 \<and>
   trackState mic1 0 = live \<and>
   trackState (state_of (stopExternalAudioCapture browser ''mic-1'' mic1)) 0 = ended \<and>
   own (externalAudioStreams (state_of (stopExternalAudioCapture browser ''mic-1'' mic1))) ''mic-1'' = None \<and>
   own (externalAudioStreamOutputs (state_of (stopExternalAudioCapture browser ''mic-1'' mic1))) ''mic-1'' = None \<and>
   stopExternalAudioCapture browser ''mic-2'' mic1 = Normal mic1"
proof -
  have r: "mediaStreams view5 5 = Some (MediaStream [0])" "mediaStreams view5 7 = None"
    "trackState view5 0 = live"
    by (simp_all add: view5_value)
  have q: "own (externalAudioStreams mic1) ''mic-1'' = Some (MediaStream [0])"
    "own (externalAudioStreams mic1) ''mic-2'' = None" "trackState mic1 0 = live"
    by (simp_all add: mic1_value)
  have i: "\<not> inherits (MediaStream_members browser) (externalAudioStreams mic1) ''mic-1''"
    "\<not> inherits (MediaStream_members browser) (externalAudioStreams mic1) ''mic-2''"
    by (simp_all add: mic1_value not_inherits_mic)
  have a: "trackState (stopBrowserViewStream 5 view5) 0 = ended \<and>
      mediaStreams (stopBrowserViewStream 5 view5) 5 = None"
    using stop_idempotent_releases_tracks [of 5 view5 "MediaStream [0]" browser "''mic-1''" "MediaStream [0]"]
      r(1)
    by simp
  have b: "stopBrowserViewStream 7 view5 = view5"
    using stop_idempotent_releases_tracks [of 7 view5 "MediaStream [0]" browser "''mic-1''" "MediaStream [0]"]
      r(2)
    by simp
  have "\<exists>s'. stopExternalAudioCapture browser ''mic-1'' mic1 = Normal s' \<and>
      (\<forall>t \<in> set (getTracks (MediaStream [0])). trackState s' t = ended) \<and>
      js_get (MediaStream_members browser) (externalAudioStreams s') ''mic-1'' = Inr Undefined \<and>
      own (externalAudioStreams s') ''mic-1'' = None \<and>
      own (externalAudioStreamOutputs s') ''mic-1'' = None \<and>
      audioContext s' = audioContext mic1"
    using stop_idempotent_releases_tracks [of 5 mic1 "MediaStream [0]" browser "''mic-1''" "MediaStream [0]"]
      q(1) i(1)
    by blast
  then have c: "trackState (state_of (stopExternalAudioCapture browser ''mic-1'' mic1)) 0 = ended \<and>
      own (externalAudioStreams (state_of (stopExternalAudioCapture browser ''mic-1'' mic1))) ''mic-1'' = None \<and>
      own (externalAudioStreamOutputs (state_of (stopExternalAudioCapture browser ''mic-1'' mic1))) ''mic-1'' = None"
    by auto
  have d: "stopExternalAudioCapture browser ''mic-2'' mic1 = Normal mic1"
    using stop_idempotent_releases_tracks [of 5 mic1 "MediaStream [0]" browser "''mic-2''" "MediaStream [0]"]
      q(2) i(2)
    by blast
  show ?thesis
    using r q i a b c d by simp
qed

section \<open>C3: frames and the websocket\<close>

text \<open>
  Claim C3 says that a frame that arrives while the socket is not open is dropped and
  counted. The manager keeps no counter: the handler leaves the whole state as it is, so
  no quantity read from the state can have grown by one. Here the socket is closed.
\<close>

theorem no_drop_counter_counterexample:
  "\<not> ws_is_open closed_socket \<and>
   \<not> (\<exists>drops :: manager \<Rightarrow> nat.
        drops (pcm_onmessage [1, 2] closed_socket) = drops closed_socket + 1)"
  by (simp add: closed_socket_not_open pcm_onmessage_not_open)

text \<open>
  Claim C3, amended: the handler hands a frame to the socket exactly when the socket
  exists and is open, and the frames sent are the frames received, in the order received;
  otherwise the frame is dropped and the state does not change at all (nothing is
  counted).
\<close>

theorem frames_sent_iff_open:
  "(transmitted (pcm_onmessage data s) = transmitted s @ [data]) = ws_is_open s \<and>
   (\<not> ws_is_open s \<longrightarrow> pcm_onmessage data s = s) \<and>
   transmitted (fold pcm_onmessage frames s) =
     (if ws_is_open s then transmitted s @ frames else transmitted s)"
  by (simp add: transmitted_pcm_onmessage pcm_onmessage_not_open transmitted_fold_pcm_onmessage)

text \<open>The amended claim at three frames, for an open and for a closed socket.\<close>

theorem frames_sent_iff_open_witness:
  "ws_is_open open_socket \<and> \<not> ws_is_open closed_socket \<and>
   transmitted (pcm_onmessage [1, 2] open_socket) = [[1, 2]] \<and>
   transmitted (fold pcm_onmessage [[1, 2], [3, 4], [5, 6]] open_socket) = [[1, 2], [3, 4], [5, 6]] \<and>
   pcm_onmessage [1, 2] closed_socket = closed_socket \<and>
   transmitted (fold pcm_onmessage [[1, 2], [3, 4], [5, 6]] closed_socket) = []"
proof -
  have o: "ws_is_open open_socket" "transmitted open_socket = []"
    by (simp_all add: open_socket_def ws_is_open_def transmitted_def)
  have c: "\<not> ws_is_open closed_socket" "transmitted closed_socket = []"
    by (simp_all add: closed_socket_def ws_is_open_def transmitted_def)
  show ?thesis
    using frames_sent_iff_open [of "[1, 2]" open_socket "[[1, 2], [3, 4], [5, 6]]"]
      frames_sent_iff_open [of "[1, 2]" closed_socket "[[1, 2], [3, 4], [5, 6]]"] o c
    by (simp del: fold.simps)
qed

section \<open>C4: the two buffer sizes\<close>

text \<open>
  Claim C4 says that the buffer size of the low latency mode is in the tens of samples.
  The literal is 256: it is not between 10 and 99.
\<close>

theorem lowLatency_bufferSize_counterexample:
  "\<not> (10 \<le> bufferSize lowLatency \<and> bufferSize lowLatency < 100)"
  by (simp add: bufferSize_def)

text \<open>
  Claim C4, amended: \<open>start\<close> takes one of the two modes \<open>lowLatency\<close> and \<open>performance\<close>
  and gives the worklet node the buffer size 256 (hundreds of samples) for the first and
  64000 (tens of thousands) for the second; no other buffer size can be chosen.
\<close>

theorem bufferSize_two_literals:
  "bufferSize lowLatency = 256 \<and> bufferSize performance = 64000 \<and>
   (m = lowLatency \<or> m = performance) \<and>
   (bufferSize m = 256 \<or> bufferSize m = 64000) \<and>
   100 \<le> bufferSize lowLatency \<and> bufferSize lowLatency < 1000 \<and>
   10000 \<le> bufferSize performance \<and> bufferSize performance < 100000 \<and>
   start (Fulfilled ()) m s =
     Normal (s\<lparr>ipc := ipc s @ [AUDIO_CAPTURE_STREAM_START NUM_CHANNELS FRAME_SIZE SAMPLE_RATE],
              audioContext := (audioContext s)
                \<lparr>nodes := (nodes (audioContext s))
                    (next_node (audioContext s) \<mapsto> AudioWorkletNode ''pcm-stream'' (bufferSize m)),
                 next_node := next_node (audioContext s) + 1,
                 connections := List.insert (audioOutputNode s, next_node (audioContext s))
                    (connections (audioContext s))\<rparr>\<rparr>)"
  by (cases m) (simp_all add: bufferSize_def start_def startBrowserStream_def
      newAudioWorkletNode_def new_node_def connect_def)

section \<open>C5: muting\<close>

text \<open>
  Claim C5 says that \<open>setMuted\<close> mutes the sources of both kinds. The method takes a view
  id and reads the gain records of the views only: once the device \<open>mic-1\<close> is captured,
  with gain node 1, no call of \<open>setMuted\<close> with \<open>muted = true\<close> takes its gain from 1 to 0.
\<close>

theorem setMuted_device_counterexample:
  "own (externalAudioStreamOutputs mic1) ''mic-1'' = Some 1 \<and>
   (\<forall>i. nodes (audioContext (setMuted i True mic1)) 1 = Some (GainNode 1))"
  by (simp add: setMuted_def mic1_value)

text \<open>
  Claim C5, amended: for a view id, \<open>setMuted\<close> sets the gain of the gain node recorded
  under the id to 0 when muted and to 1 when not, changes nothing else, and changes
  nothing at all when no gain node is recorded under the id; it does not read the records
  of the external devices and, in a state that satisfies the invariant, leaves the gain
  node of every device as it is.
\<close>

theorem setMuted_sets_view_gain:
  "(mediaStreamOutputs s i = None \<longrightarrow> setMuted i m s = s) \<and>
   (\<forall>g. mediaStreamOutputs s i = Some g \<longrightarrow>
      setMuted i m s =
        s\<lparr>audioContext := (audioContext s)
            \<lparr>nodes := (nodes (audioContext s))(g \<mapsto> GainNode (if m then 0 else 1))\<rparr>\<rparr>) \<and>
   (registry_ok s \<longrightarrow>
      (\<forall>d g. own (externalAudioStreamOutputs s) d = Some g \<or>
             prototype (externalAudioStreamOutputs s) = Some g \<longrightarrow>
         nodes (audioContext (setMuted i m s)) g = nodes (audioContext s) g))"
  by (auto simp: setMuted_def set_gain_def registry_ok_def device_gain_def split: option.splits)

text \<open>
  The amended claim in a state with view 5 (gain node 1) and the device \<open>mic-1\<close> (gain
  node 3): muting view 5 sets the gain of node 1 and not of node 3, and muting view 7,
  which is not recorded, changes nothing.
\<close>

theorem setMuted_sets_view_gain_witness:
  "registry_ok view5_mic1 \<and>
   mediaStreamOutputs view5_mic1 5 = Some 1 \<and> mediaStreamOutputs view5_mic1 7 = None \<and>
   own (externalAudioStreamOutputs view5_mic1) ''mic-1'' = Some 3 \<and>
   nodes (audioContext view5_mic1) 1 = Some (GainNode 1) \<and>
   nodes (audioContext (setMuted 5 True view5_mic1)) 1 = Some (GainNode 0) \<and>
   nodes (audioContext (setMuted 5 False (setMuted 5 True view5_mic1))) 1 = Some (GainNode 1) \<and>
   nodes (audioContext (setMuted 5 True view5_mic1)) 3 = Some (GainNode 1) \<and>
   setMuted 7 True view5_mic1 = view5_mic1"
proof -
  have r: "mediaStreamOutputs view5_mic1 5 = Some 1" "mediaStreamOutputs view5_mic1 7 = None"
    "own (externalAudioStreamOutputs view5_mic1) ''mic-1'' = Some 3"
    "nodes (audioContext view5_mic1) 1 = Some (GainNode 1)"
    "nodes (audioContext view5_mic1) 3 = Some (GainNode 1)"
    by (simp_all add: view5_mic1_value)
  have t: "mediaStreamOutputs (setMuted 5 True view5_mic1) 5 = Some 1"
    using r(1) by (simp add: setMuted_def)
  show ?thesis
    using setMuted_sets_view_gain [of view5_mic1 5 True]
      setMuted_sets_view_gain [of view5_mic1 7 True]
      setMuted_sets_view_gain [of "setMuted 5 True view5_mic1" 5 False]
      r t registry_ok_view5_mic1
    by simp
qed

section \<open>C6: a rejected request\<close>

text \<open>
  Claim C6: when \<open>getUserMedia\<close> rejects the request of \<open>startBrowserViewStream\<close> or of
  \<open>startExternalAudioCapture\<close>, the method writes the failure to the console and returns;
  apart from the console the state is as before, so there is no stream record, no gain
  record, no node and no connection that was not there.
\<close>

theorem rejected_start_leaves_no_partial_state:
  "(getUserMedia (TabAudio h) = Rejected e \<longrightarrow>
      startBrowserViewStream getUserMedia viewId h s =
        s\<lparr>console := console s @ [Unable_to_start_stream_for_web_view viewId, Error_object e]\<rparr>) \<and>
   (getUserMedia (DeviceAudio d False False False) = Rejected e \<longrightarrow>
      startExternalAudioCapture P getUserMedia d s =
        s\<lparr>console := console s @
            [Unable_to_start_stream_for_external_audio_device d, Error_object e]\<rparr>)"
  by (simp add: startBrowserViewStream_def startExternalAudioCapture_def)

text \<open>Claim C6 at a new manager whose requests for view 5 and for \<open>mic-1\<close> are rejected.\<close>

theorem rejected_start_leaves_no_partial_state_witness:
  "rejecting ''NotAllowedError'' (TabAudio ''h1'') = Rejected ''NotAllowedError'' \<and>
   rejecting ''NotAllowedError'' (DeviceAudio ''mic-1'' False False False) = Rejected ''NotAllowedError'' \<and>
   mediaStreams (startBrowserViewStream (rejecting ''NotAllowedError'') 5 ''h1'' constructor) 5 = None \<and>
   mediaStreamOutputs (startBrowserViewStream (rejecting ''NotAllowedError'') 5 ''h1'' constructor) 5 = None \<and>
   audioContext (startBrowserViewStream (rejecting ''NotAllowedError'') 5 ''h1'' constructor) =
     audioContext constructor \<and>
   externalAudioStreams (startExternalAudioCapture browser (rejecting ''NotAllowedError'') ''mic-1'' constructor) =
     empty_object \<and>
   externalAudioStreamOutputs (startExternalAudioCapture browser (rejecting ''NotAllowedError'') ''mic-1'' constructor) =
     empty_object \<and>
   audioContext (startExternalAudioCapture browser (rejecting ''NotAllowedError'') ''mic-1'' constructor) =
     audioContext constructor"
  using rejected_start_leaves_no_partial_state
    [of "rejecting ''NotAllowedError''" "''h1''" "''NotAllowedError''" 5 constructor "''mic-1''" browser]
  by (simp add: rejecting_def constructor_value empty_object_def)

section \<open>C7: the frame size\<close>

text \<open>
  Claim C7: computed in double precision as the source writes it, \<open>FRAME_SIZE\<close> is exactly
  960. Its one use is the message that \<open>_startBrowserStream\<close> sends to the main process
  before anything else, in either mode and whether or not the worklet module loads; the
  buffer size of the worklet node comes from the mode alone and is never 960.
\<close>

theorem FRAME_SIZE_is_960_and_metadata_only:
  "FRAME_SIZE = Num 960 \<and>
   startBrowserStream (Rejected e) m s =
     Throw e (s\<lparr>ipc := ipc s @ [AUDIO_CAPTURE_STREAM_START (Num 2) (Num 960) (Num 48000)]\<rparr>) \<and>
   startBrowserStream (Fulfilled ()) m s =
     Normal (s\<lparr>ipc := ipc s @ [AUDIO_CAPTURE_STREAM_START (Num 2) (Num 960) (Num 48000)],
              audioContext := (audioContext s)
                \<lparr>nodes := (nodes (audioContext s))
                    (next_node (audioContext s) \<mapsto> AudioWorkletNode ''pcm-stream'' (bufferSize m)),
                 next_node := next_node (audioContext s) + 1,
                 connections := List.insert (audioOutputNode s, next_node (audioContext s))
                    (connections (audioContext s))\<rparr>\<rparr>) \<and>
   Num (of_nat (bufferSize m)) \<noteq> FRAME_SIZE"
  by (cases m) (simp_all add: FRAME_SIZE_value NUM_CHANNELS_def SAMPLE_RATE_def bufferSize_def
      startBrowserStream_def newAudioWorkletNode_def new_node_def connect_def)

section \<open>C8: muting twice\<close>

text \<open>
  Claim C8 is about every id with a registered gain stage. The device \<open>mic-1\<close> has one,
  gain node 1 of gain 1, and \<open>setMuted\<close> reads the records of the views only: two calls
  with \<open>muted = true\<close>, for whatever id, leave the state as it is, the gain at 1 and not 0.
\<close>

theorem setMuted_twice_device_counterexample:
  "own (externalAudioStreamOutputs mic1) ''mic-1'' = Some 1 \<and>
   nodes (audioContext mic1) 1 = Some (GainNode 1) \<and>
   (\<forall>i. setMuted i True (setMuted i True mic1) = mic1)"
  by (simp add: setMuted_def mic1_value)

text \<open>
  Claim C8, amended: for every view id with a recorded gain node, \<open>setMuted\<close> with the
  same argument twice gives the state that one call gives, and after one or two calls with
  \<open>muted = true\<close> the gain is 0.
\<close>

theorem setMuted_idempotent:
  "mediaStreamOutputs s i = Some g \<Longrightarrow>
   setMuted i m (setMuted i m s) = setMuted i m s \<and>
   nodes (audioContext (setMuted i True s)) g = Some (GainNode 0) \<and>
   nodes (audioContext (setMuted i True (setMuted i True s))) g = Some (GainNode 0)"
  by (simp add: setMuted_def set_gain_def)

text \<open>The amended claim at view 5, whose gain node 1 has the gain 1 before.\<close>

theorem setMuted_idempotent_witness:
  "mediaStreamOutputs view5 5 = Some 1 \<and>
   setMuted 5 True (setMuted 5 True view5) = setMuted 5 True view5 \<and>
   nodes (audioContext view5) 1 = Some (GainNode 1) \<and>
   nodes (audioContext (setMuted 5 True view5)) 1 = Some (GainNode 0) \<and>
   nodes (audioContext (setMuted 5 True (setMuted 5 True view5))) 1 = Some (GainNode 0)"
proof -
  have r: "mediaStreamOutputs view5 5 = Some 1" "nodes (audioContext view5) 1 = Some (GainNode 1)"
    by (simp_all add: view5_value)
  show ?thesis
    using setMuted_idempotent [OF r(1), of True] r by simp
qed

section \<open>C9: loopback\<close>

text \<open>
  Claim C9: \<open>setLoopback\<close> assigns the \<open>muted\<close> flag of the audio element, the negation of
  its argument, and nothing else: the audio graph with the connection from the mix bus to
  the worklet node and the socket are as before, and the frames sent for any sequence of
  worklet messages are the same with and without the call. Before \<open>setup\<close> there is no
  audio element; then the call throws and the state is as before.
\<close>

theorem setLoopback_only_mutes_element:
  "(case setLoopback b s of
      Throw e s' \<Rightarrow> audioOutputElement s = None \<and> s' = s
    | Normal s' \<Rightarrow>
        (\<exists>el. audioOutputElement s = Some el \<and>
              s' = s\<lparr>audioOutputElement := Some (el\<lparr>muted := \<not> b\<rparr>)\<rparr>) \<and>
        audioContext s' = audioContext s \<and> ws s' = ws s \<and>
        transmitted (fold pcm_onmessage frames s') = transmitted (fold pcm_onmessage frames s))"
  by (cases "audioOutputElement s")
    (simp_all add: setLoopback_def transmitted_fold_pcm_onmessage
      ws_is_open_audioOutputElement_update transmitted_audioOutputElement_update)

section \<open>C10: the gain record of a stopped view\<close>

text \<open>
  Claim C10: for a view with a recorded stream and gain node, \<open>stopBrowserViewStream\<close>
  removes the stream record and keeps all gain records, so that a later \<open>setMuted\<close> for
  the view finds the gain node and sets its gain.
\<close>

theorem stopBrowserViewStream_keeps_gain_record:
  "mediaStreams s v = Some stream \<Longrightarrow> mediaStreamOutputs s v = Some g \<Longrightarrow>
   mediaStreams (stopBrowserViewStream v s) v = None \<and>
   mediaStreamOutputs (stopBrowserViewStream v s) = mediaStreamOutputs s \<and>
   setMuted v m (stopBrowserViewStream v s) =
     (stopBrowserViewStream v s)\<lparr>audioContext := set_gain g (if m then 0 else 1) (audioContext s)\<rparr> \<and>
   nodes (audioContext (setMuted v m (stopBrowserViewStream v s))) g =
     Some (GainNode (if m then 0 else 1))"
  by (simp add: stopBrowserViewStream_active setMuted_def set_gain_def)

text \<open>
  Claim C10 at view 5: after the stop the gain record still names node 1, of gain 1, and
  \<open>setMuted\<close> takes the gain to 0.
\<close>

theorem stopBrowserViewStream_keeps_gain_record_witness:
  "mediaStreams view5 5 = Some (MediaStream [0]) \<and> mediaStreamOutputs view5 5 = Some 1 \<and>
   mediaStreams (stopBrowserViewStream 5 view5) 5 = None \<and>
   mediaStreamOutputs (stopBrowserViewStream 5 view5) 5 = Some 1 \<and>
   nodes (audioContext (stopBrowserViewStream 5 view5)) 1 = Some (GainNode 1) \<and>
   nodes (audioContext (setMuted 5 True (stopBrowserViewStream 5 view5))) 1 = Some (GainNode 0)"
proof -
  have r: "mediaStreams view5 5 = Some (MediaStream [0])" "mediaStreamOutputs view5 5 = Some 1"
    "nodes (audioContext view5) 1 = Some (GainNode 1)"
    by (simp_all add: view5_value)
  show ?thesis
    using stopBrowserViewStream_keeps_gain_record [OF r(1) r(2), of True] r
    by (simp add: stopBrowserViewStream_active set_gain_def)
qed

end
